theory Spec2Isabelle
  imports Complex_Main
begin

section \<open>Python strings\<close>

text \<open>
  A Python \<open>str\<close> is a sequence of code points. The texts, labels and keywords of the
  analyzer are Portuguese, so a \<open>str\<close> is modelled as a \<^typ>\<open>string\<close> whose characters are
  the code points U+0000 to U+00FF (Latin-1): \<open>CHR 0xC1\<close> is the capital A with acute
  accent. The tables of the Unicode database that the program consults through
  \<open>str.lower\<close>, \<open>str.split\<close>, \<open>re\<close> and \<open>unicodedata\<close> are written out for this range.
\<close>

definition code :: "char \<Rightarrow> nat" where
  "code c = of_char c"

text \<open>\<open>str.isspace\<close>, the separators of \<open>str.split()\<close> and \<open>str.strip()\<close>, the class \<open>\s\<close>.\<close>

definition isspace :: "char \<Rightarrow> bool" where
  "isspace c = ((9 \<le> code c \<and> code c \<le> 13) \<or> (28 \<le> code c \<and> code c \<le> 32)
     \<or> code c = 0x85 \<or> code c = 0xA0)"

text \<open>The class \<open>\w\<close> of \<open>re\<close> on \<open>str\<close> patterns: alphanumeric code points and the underscore.\<close>

definition isword :: "char \<Rightarrow> bool" where
  "isword c = ((0x30 \<le> code c \<and> code c \<le> 0x39) \<or> (0x41 \<le> code c \<and> code c \<le> 0x5A)
     \<or> code c = 0x5F \<or> (0x61 \<le> code c \<and> code c \<le> 0x7A)
     \<or> code c = 0xAA \<or> code c = 0xB2 \<or> code c = 0xB3 \<or> code c = 0xB5
     \<or> code c = 0xB9 \<or> code c = 0xBA \<or> (0xBC \<le> code c \<and> code c \<le> 0xBE)
     \<or> (0xC0 \<le> code c \<and> code c \<le> 0xD6) \<or> (0xD8 \<le> code c \<and> code c \<le> 0xF6)
     \<or> 0xF8 \<le> code c)"

text \<open>\<open>str.lower\<close>: on this range it maps code point by code point.\<close>

definition lower_char :: "char \<Rightarrow> char" where
  "lower_char c =
     (if (0x41 \<le> code c \<and> code c \<le> 0x5A) \<or> (0xC0 \<le> code c \<and> code c \<le> 0xDE \<and> code c \<noteq> 0xD7)
      then char_of (code c + 32) else c)"

definition lower :: "string \<Rightarrow> string" where
  "lower s = map lower_char s"

text \<open>\<open>s.split()\<close>: the maximal runs of characters that are not white space.\<close>

fun split_acc :: "string \<Rightarrow> string \<Rightarrow> string list" where
  "split_acc w [] = (if w = [] then [] else [w])"
| "split_acc w (c # cs) =
     (if isspace c then (if w = [] then split_acc [] cs else w # split_acc [] cs)
      else split_acc (w @ [c]) cs)"

definition split :: "string \<Rightarrow> string list" where
  "split s = split_acc [] s"

text \<open>\<open>sep.join(ws)\<close>.\<close>

fun join :: "string \<Rightarrow> string list \<Rightarrow> string" where
  "join sep [] = []"
| "join sep [w] = w"
| "join sep (w # v # ws) = w @ sep @ join sep (v # ws)"

text \<open>\<open>s.strip()\<close>.\<close>

definition strip :: "string \<Rightarrow> string" where
  "strip s = rev (dropWhile isspace (rev (dropWhile isspace s)))"

text \<open>\<open>s.startswith(p)\<close> and \<open>p in s\<close>.\<close>

fun startswith :: "string \<Rightarrow> string \<Rightarrow> bool" where
  "startswith s [] = True"
| "startswith [] (p # ps) = False"
| "startswith (c # cs) (p # ps) = (c = p \<and> startswith cs ps)"

fun contains :: "string \<Rightarrow> string \<Rightarrow> bool" where
  "contains [] p = (p = [])"
| "contains (c # cs) p = (startswith (c # cs) p \<or> contains cs p)"

text \<open>\<open>s.split(sep)\<close> for a separator of one character: empty pieces are kept.\<close>

fun split_on :: "char \<Rightarrow> string \<Rightarrow> string list" where
  "split_on sep [] = [[]]"
| "split_on sep (c # cs) =
     (if c = sep then [] # split_on sep cs
      else (case split_on sep cs of [] \<Rightarrow> [[c]] | w # ws \<Rightarrow> (c # w) # ws))"

text \<open>
  \<open>s.replace(old, new)\<close> for a non-empty \<open>old\<close>: the occurrences are replaced from the
  left, without overlap.
\<close>

fun replace :: "string \<Rightarrow> string \<Rightarrow> string \<Rightarrow> string" where
  "replace [] old new = []"
| "replace (c # cs) old new =
     (if old \<noteq> [] \<and> startswith (c # cs) old
      then new @ replace (drop (length old) (c # cs)) old new
      else c # replace cs old new)"

section \<open>Taxonomy index\<close>

subsection \<open>Normalization\<close>

text \<open>
  \<open>unicodedata.normalize('NFD', text)\<close> replaces a code point by its canonical
  decomposition. On the range U+0000 to U+00FF the decomposable code points are the
  accented letters below; each becomes its base letter followed by one combining mark
  (U+0300 grave, U+0301 acute, U+0302 circumflex, U+0303 tilde, U+0308 diaeresis,
  U+030A ring, U+0327 cedilla). The input has no combining mark of its own, so the
  canonical reordering of marks has nothing to do. The decomposed text is a list of
  code points, since the marks lie outside the range.
\<close>

definition canonical_decomposition :: "(nat \<times> nat list) list" where
  "canonical_decomposition =
    [(0xC0, [0x41, 0x300]), (0xC1, [0x41, 0x301]), (0xC2, [0x41, 0x302]), (0xC3, [0x41, 0x303]),
     (0xC4, [0x41, 0x308]), (0xC5, [0x41, 0x30A]), (0xC7, [0x43, 0x327]), (0xC8, [0x45, 0x300]),
     (0xC9, [0x45, 0x301]), (0xCA, [0x45, 0x302]), (0xCB, [0x45, 0x308]), (0xCC, [0x49, 0x300]),
     (0xCD, [0x49, 0x301]), (0xCE, [0x49, 0x302]), (0xCF, [0x49, 0x308]), (0xD1, [0x4E, 0x303]),
     (0xD2, [0x4F, 0x300]), (0xD3, [0x4F, 0x301]), (0xD4, [0x4F, 0x302]), (0xD5, [0x4F, 0x303]),
     (0xD6, [0x4F, 0x308]), (0xD9, [0x55, 0x300]), (0xDA, [0x55, 0x301]), (0xDB, [0x55, 0x302]),
     (0xDC, [0x55, 0x308]), (0xDD, [0x59, 0x301]),
     (0xE0, [0x61, 0x300]), (0xE1, [0x61, 0x301]), (0xE2, [0x61, 0x302]), (0xE3, [0x61, 0x303]),
     (0xE4, [0x61, 0x308]), (0xE5, [0x61, 0x30A]), (0xE7, [0x63, 0x327]), (0xE8, [0x65, 0x300]),
     (0xE9, [0x65, 0x301]), (0xEA, [0x65, 0x302]), (0xEB, [0x65, 0x308]), (0xEC, [0x69, 0x300]),
     (0xED, [0x69, 0x301]), (0xEE, [0x69, 0x302]), (0xEF, [0x69, 0x308]), (0xF1, [0x6E, 0x303]),
     (0xF2, [0x6F, 0x300]), (0xF3, [0x6F, 0x301]), (0xF4, [0x6F, 0x302]), (0xF5, [0x6F, 0x303]),
     (0xF6, [0x6F, 0x308]), (0xF9, [0x75, 0x300]), (0xFA, [0x75, 0x301]), (0xFB, [0x75, 0x302]),
     (0xFC, [0x75, 0x308]), (0xFD, [0x79, 0x301]), (0xFF, [0x79, 0x308])]"

definition decompose :: "char \<Rightarrow> nat list" where
  "decompose c =
     (case map_of canonical_decomposition (code c) of None \<Rightarrow> [code c] | Some d \<Rightarrow> d)"

definition NFD :: "string \<Rightarrow> nat list" where
  "NFD s = concat (map decompose s)"

text \<open>
  \<open>unicodedata.category(c) == 'Mn'\<close>: among the code points below U+0370 the nonspacing
  marks are the block of combining diacritical marks.
\<close>

definition category_Mn :: "nat \<Rightarrow> bool" where
  "category_Mn n = (0x300 \<le> n \<and> n \<le> 0x36F)"

text \<open>\<open>re.sub(r'[^\w\s]', ' ', s)\<close>.\<close>

definition sub_special :: "string \<Rightarrow> string" where
  "sub_special s = map (\<lambda>c. if isword c \<or> isspace c then c else CHR '' '') s"

text \<open>\<open>CACDTaxonomyAnalyzer._normalize_text\<close>.\<close>

definition normalize_text :: "string \<Rightarrow> string" where
  "normalize_text text =
     (if text = [] then []
      else let decomposed = NFD text;
               unmarked = map char_of (filter (\<lambda>c. \<not> category_Mn c) decomposed);
               cleaned = sub_special (lower unmarked)
           in join '' '' (split cleaned))"

subsection \<open>Loaded YAML\<close>

text \<open>
  What \<open>yaml.safe_load\<close> returns, with Python's truth value of it. The keys of a
  mapping are strings.
\<close>

datatype yval =
    YNull
  | YBool bool
  | YInt int
  | YFloat real
  | YStr string
  | YList "yval list"
  | YDict "(string \<times> yval) list"

fun truthy :: "yval \<Rightarrow> bool" where
  "truthy YNull = False"
| "truthy (YBool b) = b"
| "truthy (YInt i) = (i \<noteq> 0)"
| "truthy (YFloat r) = (r \<noteq> 0)"
| "truthy (YStr s) = (s \<noteq> [])"
| "truthy (YList vs) = (vs \<noteq> [])"
| "truthy (YDict kvs) = (kvs \<noteq> [])"

subsection \<open>Keyword map\<close>

text \<open>
  The taxonomy is the loaded mapping from an area to its content, in the order of the
  file. A label is the triple \<open>(area, subarea, topic)\<close> of the source, the last two
  possibly \<open>None\<close>. The keyword map sends a normalized word to the labels it was found
  in, in the order they were appended.
\<close>

type_synonym taxonomy = "(string \<times> yval) list"
type_synonym label = "string \<times> string option \<times> string option"
type_synonym keyword_map = "string \<rightharpoonup> label list"

text \<open>
  The inner loops \<open>for word in ....split(): if len(word) > 2: keyword_map[word].append(l)\<close>
  on a \<open>defaultdict(list)\<close>.
\<close>

definition append_label :: "label \<Rightarrow> string \<Rightarrow> keyword_map \<Rightarrow> keyword_map" where
  "append_label l word km =
     (if length word > 2 then km(word \<mapsto> (case km word of None \<Rightarrow> [] | Some ls \<Rightarrow> ls) @ [l])
      else km)"

definition add_words :: "label \<Rightarrow> string \<Rightarrow> keyword_map \<Rightarrow> keyword_map" where
  "add_words l name km = fold (append_label l) (split (normalize_text name)) km"

definition add_topic :: "string \<Rightarrow> string \<Rightarrow> yval \<Rightarrow> keyword_map \<Rightarrow> keyword_map" where
  "add_topic area subarea topic km =
     (case topic of YStr t \<Rightarrow> add_words (area, Some subarea, Some t) t km | _ \<Rightarrow> km)"

definition add_subarea :: "string \<Rightarrow> string \<times> yval \<Rightarrow> keyword_map \<Rightarrow> keyword_map" where
  "add_subarea area entry km =
     (let subarea = fst entry; topics = snd entry;
          km1 = add_words (area, Some subarea, None) subarea km
      in case topics of YList ts \<Rightarrow> fold (add_topic area subarea) ts km1 | _ \<Rightarrow> km1)"

definition add_area :: "string \<times> yval \<Rightarrow> keyword_map \<Rightarrow> keyword_map" where
  "add_area entry km =
     (let area = fst entry; content = snd entry;
          km1 = add_words (area, None, None) area km
      in case content of YDict subs \<Rightarrow> fold (add_subarea area) subs km1 | _ \<Rightarrow> km1)"

text \<open>\<open>CACDTaxonomyAnalyzer._build_keyword_map\<close>.\<close>

definition build_keyword_map :: "taxonomy \<Rightarrow> keyword_map" where
  "build_keyword_map tax = fold add_area tax Map.empty"

section \<open>Classifier\<close>

text \<open>
  \<open>matches\<close> is a \<open>defaultdict(int)\<close>: a dictionary keeps its keys in the order of
  their first insertion, so it is an association list here. \<open>matches[key] += 1\<close>:
\<close>

fun increment :: "(label \<times> nat) list \<Rightarrow> label \<Rightarrow> (label \<times> nat) list" where
  "increment [] k = [(k, 1)]"
| "increment ((k', n) # m) k = (if k' = k then (k', n + 1) # m else (k', n) # increment m k)"

definition count_word :: "keyword_map \<Rightarrow> string \<Rightarrow> (label \<times> nat) list \<Rightarrow> (label \<times> nat) list" where
  "count_word km word matches =
     (case km word of None \<Rightarrow> matches | Some ls \<Rightarrow> fold (\<lambda>l m. increment m l) ls matches)"

definition count_matches :: "keyword_map \<Rightarrow> string list \<Rightarrow> (label \<times> nat) list" where
  "count_matches km words = fold (count_word km) words []"

text \<open>
  \<open>max(matches.items(), key=lambda x: x[1])\<close>: the first item with the greatest count.
\<close>

fun max_item :: "label \<times> nat \<Rightarrow> (label \<times> nat) list \<Rightarrow> label \<times> nat" where
  "max_item best [] = best"
| "max_item best (x # xs) = max_item (if snd best < snd x then x else best) xs"

text \<open>
  \<open>CACDTaxonomyAnalyzer.classify_text\<close>. The confidence is a Python float; its
  arithmetic is modelled by the arithmetic of the real numbers.
\<close>

definition classify_text ::
  "keyword_map \<Rightarrow> string \<Rightarrow> string \<Rightarrow> string option \<times> string option \<times> string option \<times> real" where
  "classify_text km text title =
     (let combined_text = strip (title @ '' '' @ text);
          normalized_text = normalize_text combined_text
      in if normalized_text = [] then (None, None, None, 0)
         else let words = split normalized_text;
                  matches = count_matches km words
              in case matches of
                   [] \<Rightarrow> (None, None, None, 0)
                 | m # ms \<Rightarrow>
                     (case max_item m ms of
                        ((area, subarea, topic), score) \<Rightarrow>
                          (Some area, subarea, topic,
                           min (real score / max (real (length words) * 0.1) 1) 1)))"

section \<open>Tag generator\<close>

text \<open>\<open>CACDTagGenerator.area_tags\<close> and \<open>keyword_tags\<close>, in the order of the source.\<close>

definition area_tags :: "(string \<times> string list) list" where
  "area_tags =
    [(''L'' @ [CHR 0xED] @ ''ngua Portuguesa'',
       [''gram'' @ [CHR 0xE1] @ ''tica'',
        ''ortografia'',
        ''reda'' @ [CHR 0xE7] @ [CHR 0xE3] @ ''o'',
        ''literatura'',
        ''lingu'' @ [CHR 0xED] @ ''stica'']),
     (''L'' @ [CHR 0xED] @ ''ngua Inglesa'',
       [''ingl'' @ [CHR 0xEA] @ ''s'',
        ''tradu'' @ [CHR 0xE7] @ [CHR 0xE3] @ ''o'',
        ''gram'' @ [CHR 0xE1] @ ''tica-inglesa'',
        ''vocabul'' @ [CHR 0xE1] @ ''rio'']),
     (''Hist'' @ [CHR 0xF3] @ ''ria do Brasil'',
       [''brasil'',
        ''col'' @ [CHR 0xF4] @ ''nia'',
        ''imp'' @ [CHR 0xE9] @ ''rio'',
        ''rep'' @ [CHR 0xFA] @ ''blica'',
        ''pol'' @ [CHR 0xED] @ ''tica-brasileira'']),
     (''Hist'' @ [CHR 0xF3] @ ''ria Mundial'',
       [''internacional'',
        ''guerra'',
        ''revolu'' @ [CHR 0xE7] @ [CHR 0xE3] @ ''o'',
        ''imperialismo'',
        ''ideologia'']),
     (''Pol'' @ [CHR 0xED] @ ''tica Internacional'',
       [''diplomacia'',
        ''rela'' @ [CHR 0xE7] @ [CHR 0xF5] @ ''es-internacionais'',
        ''onu'',
        ''mercosul'',
        ''geopol'' @ [CHR 0xED] @ ''tica'']),
     (''Geografia'',
       [''territ'' @ [CHR 0xF3] @ ''rio'',
        ''popula'' @ [CHR 0xE7] @ [CHR 0xE3] @ ''o'',
        ''economia-espacial'',
        ''meio-ambiente'',
        ''urbaniza'' @ [CHR 0xE7] @ [CHR 0xE3] @ ''o'']),
     (''ECONOMIA'',
       [''macroeconomia'',
        ''microeconomia'',
        ''pol'' @ [CHR 0xED] @ ''tica-fiscal'',
        ''com'' @ [CHR 0xE9] @ ''rcio-internacional'',
        ''desenvolvimento'']),
     (''DIREITO'',
       [''constitucional'',
        ''administrativo'',
        ''internacional-p'' @ [CHR 0xFA] @ ''blico'',
        ''tratados'',
        ''soberania'']),
     (''L'' @ [CHR 0xCD] @ ''NGUA ESPANHOLA'',
       [''espanhol'',
        ''tradu'' @ [CHR 0xE7] @ [CHR 0xE3] @ ''o-espanhol'',
        ''america-latina'']),
     (''L'' @ [CHR 0xCD] @ ''NGUA FRANCESA'',
       [''franc'' @ [CHR 0xEA] @ ''s'',
        ''tradu'' @ [CHR 0xE7] @ [CHR 0xE3] @ ''o-franc'' @ [CHR 0xEA] @ ''s'',
        ''francofonia''])]"

definition keyword_tags :: "(string \<times> string) list" where
  "keyword_tags =
    [(''constitui'' @ [CHR 0xE7] @ [CHR 0xE3] @ ''o'', ''constitucional''),
     (''mercosul'', ''integra'' @ [CHR 0xE7] @ [CHR 0xE3] @ ''o-regional''),
     (''onu'', ''multilateralismo''),
     (''guerra'', ''conflitos''),
     (''paz'', ''paz-seguran'' @ [CHR 0xE7] @ ''a''),
     (''economia'', ''an'' @ [CHR 0xE1] @ ''lise-econ'' @ [CHR 0xF4] @ ''mica''),
     (''pol'' @ [CHR 0xED] @ ''tica'', ''ci'' @ [CHR 0xEA] @ ''ncia-pol'' @ [CHR 0xED] @ ''tica''),
     (''diplomacia'', ''a'' @ [CHR 0xE7] @ [CHR 0xE3] @ ''o-diplom'' @ [CHR 0xE1] @ ''tica''),
     (''territ'' @ [CHR 0xF3] @ ''rio'', ''geografia-pol'' @ [CHR 0xED] @ ''tica''),
     (''popula'' @ [CHR 0xE7] @ [CHR 0xE3] @ ''o'', ''demografia''),
     (''meio ambiente'', ''sustentabilidade''),
     (''brasil'', ''brasil-estudos''),
     (''direitos humanos'', ''direitos-humanos''),
     (''com'' @ [CHR 0xE9] @ ''rcio'', ''com'' @ [CHR 0xE9] @ ''rcio-internacional'')]"

text \<open>
  \<open>re.search(r'\b(w1|w2|w3)\b', s)\<close>: some alternative stands in \<open>s\<close> between two word
  boundaries. A boundary lies between a \<open>\w\<close> character and a character that is not one;
  the start and the end of the text count as not one. \<open>prev\<close> is the character before
  the position examined.
\<close>

definition boundary :: "char option \<Rightarrow> char option \<Rightarrow> bool" where
  "boundary left right =
     ((case left of None \<Rightarrow> False | Some c \<Rightarrow> isword c)
        \<noteq> (case right of None \<Rightarrow> False | Some c \<Rightarrow> isword c))"

definition word_at :: "char option \<Rightarrow> string \<Rightarrow> string \<Rightarrow> bool" where
  "word_at prev s w =
     (w \<noteq> [] \<and> startswith s w \<and> boundary prev (Some (hd w))
      \<and> boundary (Some (last w)) (case drop (length w) s of [] \<Rightarrow> None | c # _ \<Rightarrow> Some c))"

fun search_words_from :: "string list \<Rightarrow> char option \<Rightarrow> string \<Rightarrow> bool" where
  "search_words_from alts prev [] = False"
| "search_words_from alts prev (c # cs) =
     (list_ex (word_at prev (c # cs)) alts \<or> search_words_from alts (Some c) cs)"

definition search_words :: "string list \<Rightarrow> string \<Rightarrow> bool" where
  "search_words alts s = search_words_from alts None s"

text \<open>
  \<open>tags\<close> is a Python set of strings. While it is built it is kept as the list of its
  elements in the order they were first added.
\<close>

definition set_add :: "string \<Rightarrow> string list \<Rightarrow> string list" where
  "set_add tag tags = (if tag \<in> set tags then tags else tags @ [tag])"

text \<open>
  The body of \<open>CACDTagGenerator.generate_tags\<close> up to its \<open>return\<close>: the elements of
  \<open>tags\<close>.
\<close>

definition tag_set :: "string \<Rightarrow> string \<Rightarrow> string option \<Rightarrow> string list" where
  "tag_set text title area =
     (let combined_text = lower (title @ '' '' @ text);
          tags0 = [];
          tags1 =
            (case area of
               None \<Rightarrow> tags0
             | Some a \<Rightarrow>
                 (if a = [] then tags0
                  else case map_of area_tags a of
                         None \<Rightarrow> tags0
                       | Some area_words \<Rightarrow>
                           fold (\<lambda>tag tags.
                                   if list_ex (\<lambda>word. contains combined_text word) (split_on CHR ''-'' tag)
                                   then set_add tag tags else tags)
                             (take 2 area_words) tags0));
          tags2 =
            fold (\<lambda>entry tags. if contains combined_text (fst entry) then set_add (snd entry) tags else tags)
              keyword_tags tags1;
          tags3 =
            (if search_words [''tratado'', ''acordo'', ''conven'' @ [CHR 0xE7] @ [CHR 0xE3] @ ''o''] combined_text
             then set_add (''instrumentos-jur'' @ [CHR 0xED] @ ''dicos'') tags2 else tags2);
          tags4 =
            (if search_words [''guerra'', ''conflito'', ''paz''] combined_text
             then set_add (''seguran'' @ [CHR 0xE7] @ ''a-internacional'') tags3 else tags3);
          tags5 =
            (if search_words [''desenvolvimento'', ''crescimento'', ''econ'' @ [CHR 0xF4] @ ''mico''] combined_text
             then set_add (''desenvolvimento-econ'' @ [CHR 0xF4] @ ''mico'') tags4 else tags4)
      in tags5)"

text \<open>
  \<open>list(tags)\<close> enumerates the set in the order of its hash table, which depends on the
  hashes of the strings and not on the order of insertion. The order is a parameter of the
  model: \<open>rank\<close> gives every string its place, and a set is enumerated by increasing rank.
  Every enumeration of a set is the one of some \<open>rank\<close>.
\<close>

definition set_list :: "(string \<Rightarrow> nat) \<Rightarrow> string list \<Rightarrow> string list" where
  "set_list rank xs = sort_key rank xs"

text \<open>\<open>CACDTagGenerator.generate_tags\<close>: \<open>return list(tags)[:5]\<close>.\<close>

definition generate_tags :: "(string \<Rightarrow> nat) \<Rightarrow> string \<Rightarrow> string \<Rightarrow> string option \<Rightarrow> string list" where
  "generate_tags rank text title area = take 5 (set_list rank (tag_set text title area))"

section \<open>Analyzer\<close>

text \<open>
  The dataclass \<open>Note\<close> (its \<open>id\<close> is \<open>note_key\<close> here, its title a \<open>str\<close> as declared,
  the time of last modification a number) and the configuration dictionary. A header
  (\<open>frontmatter\<close>) maps a key to the loaded value.
\<close>

type_synonym header = "string \<rightharpoonup> yval"

record Note =
  note_key :: string
  title :: string
  content :: string
  frontmatter :: header
  file_path :: string
  last_modified :: int

record config =
  min_content_length :: int
  max_tags :: int
  relevancia_threshold :: real
  conexoes_max :: int
  feedback_file :: string
  cache_file :: string
  backup_original :: bool

text \<open>\<open>CACDMetadataAnalyzer._default_config\<close>.\<close>

definition default_config :: config where
  "default_config =
     \<lparr>min_content_length = 50, max_tags = 5, relevancia_threshold = 0.3, conexoes_max = 3,
      feedback_file = ''cacd_feedback.md'', cache_file = ''.cacd_cache.json'',
      backup_original = True\<rparr>"

text \<open>\<open>fm.get(key)\<close>: \<open>None\<close> for a missing key.\<close>

definition fm_get :: "header \<Rightarrow> string \<Rightarrow> yval" where
  "fm_get fm key = (case fm key of None \<Rightarrow> YNull | Some v \<Rightarrow> v)"

text \<open>
  An optional label as a Python value: \<open>None\<close> or a \<open>str\<close>. Python's \<open>==\<close> between such a
  value and a loaded value holds exactly when the two are the same value.
\<close>

definition label_value :: "string option \<Rightarrow> yval" where
  "label_value l = (case l of None \<Rightarrow> YNull | Some s \<Rightarrow> YStr s)"

text \<open>\<open>CACDMetadataAnalyzer._has_complete_metadata\<close>.\<close>

definition has_complete_metadata :: "Note \<Rightarrow> bool" where
  "has_complete_metadata n =
     list_all (\<lambda>field. case frontmatter n field of None \<Rightarrow> False | Some v \<Rightarrow> truthy v)
       [''area'', ''relevancia_cacd'']"

definition high_priority_areas :: "string list" where
  "high_priority_areas =
     [''Pol'' @ [CHR 0xED] @ ''tica Internacional'', ''Hist'' @ [CHR 0xF3] @ ''ria do Brasil'',
      ''DIREITO'', ''ECONOMIA'', ''Geografia'']"

text \<open>
  \<open>CACDMetadataAnalyzer._calculate_relevancia_cacd\<close>. \<open>not area\<close> holds of \<open>None\<close> and of
  the empty string. The confidence and the threshold are floats; a comparison of floats
  is the comparison of the numbers they stand for, and between a float and \<open>0.7\<close> or
  \<open>0.4\<close> it is the comparison with the decimal fraction, the literal being the float
  nearest to it.
\<close>

definition calculate_relevancia_cacd :: "config \<Rightarrow> Note \<Rightarrow> string option \<Rightarrow> real \<Rightarrow> int" where
  "calculate_relevancia_cacd cfg n area confidence =
     (if area = None \<or> area = Some [] \<or> confidence < relevancia_threshold cfg then 1
      else let base_score = 3;
               score1 = (if list_ex (\<lambda>x. area = Some x) high_priority_areas then base_score + 1
                         else base_score);
               score2 = (if confidence > 0.7 then score1 + 1
                         else if confidence < 0.4 then score1 - 1 else score1);
               content_length = int (length (content n));
               score3 = (if content_length > 1000 then score2 + 1
                         else if content_length < 200 then score2 - 1 else score2)
           in max 1 (min 5 score3))"

text \<open>
  \<open>CACDMetadataAnalyzer._suggest_connections\<close>. \<open>notes\<close> is the dictionary \<open>self.notes\<close>
  as the list of its values in iteration order; the key of a note is its \<open>note_key\<close>.
  The loop appends a title and only then compares the length with \<open>conexoes_max\<close>.
  (\<open>note_words\<close> is computed and never read.)
\<close>

fun connections_loop :: "config \<Rightarrow> Note \<Rightarrow> yval \<Rightarrow> yval \<Rightarrow> string list \<Rightarrow> Note list \<Rightarrow> string list" where
  "connections_loop cfg n a s connections [] = connections"
| "connections_loop cfg n a s connections (other # rest) =
     (if note_key other = note_key n then connections_loop cfg n a s connections rest
      else if fm_get (frontmatter other) ''area'' = a \<or> fm_get (frontmatter other) ''subarea'' = s
           then (let connections' = connections @ [title other]
                 in if int (length connections') \<ge> conexoes_max cfg then connections'
                    else connections_loop cfg n a s connections' rest)
           else connections_loop cfg n a s connections rest)"

definition suggest_connections ::
  "config \<Rightarrow> Note list \<Rightarrow> Note \<Rightarrow> string option \<Rightarrow> string option \<Rightarrow> string list" where
  "suggest_connections cfg notes n area subarea =
     connections_loop cfg n (label_value area) (label_value subarea) [] notes"

text \<open>The dataclass \<open>MetadataSuggestion\<close>, after \<open>__post_init__\<close>.\<close>

record suggestion =
  note_id :: string
  area :: "string option"
  subarea :: "string option"
  topico :: "string option"
  tags :: "string list"
  relevancia_cacd :: "int option"
  conexoes :: "string list"
  confidence :: real

text \<open>\<open>CACDMetadataAnalyzer.analyze_note\<close>.\<close>

definition analyze_note :: "(string \<Rightarrow> nat) \<Rightarrow> config \<Rightarrow> keyword_map \<Rightarrow> Note list \<Rightarrow> Note \<Rightarrow> suggestion" where
  "analyze_note rank cfg km notes n =
     (if has_complete_metadata n
      then \<lparr>note_id = note_key n, area = None, subarea = None, topico = None, tags = [],
            relevancia_cacd = None, conexoes = [], confidence = 1\<rparr>
      else case classify_text km (content n) (title n) of
             (a, s, t, c) \<Rightarrow>
               \<lparr>note_id = note_key n, area = a, subarea = s, topico = t,
                tags = generate_tags rank (content n) (title n) a,
                relevancia_cacd = Some (calculate_relevancia_cacd cfg n a c),
                conexoes = suggest_connections cfg notes n a s,
                confidence = c\<rparr>)"

section \<open>Review file\<close>

subsection \<open>Generation\<close>

text \<open>
  The files of the vault: a path has a content or does not exist. Opening a missing file
  for reading and renaming a missing file raise; writing creates or replaces the file.
\<close>

type_synonym filesystem = "string \<rightharpoonup> string"

text \<open>\<open>str(n)\<close> for an integer.\<close>

fun str_nat :: "nat \<Rightarrow> string" where
  "str_nat n = (if n < 10 then [char_of (48 + n)] else str_nat (n div 10) @ [char_of (48 + n mod 10)])"

definition str_int :: "int \<Rightarrow> string" where
  "str_int i = (if i < 0 then CHR ''-'' # str_nat (nat (- i)) else str_nat (nat i))"

text \<open>
  The first loop of \<open>generate_feedback_file\<close>: the suggestions of the notes without
  complete metadata, those with an area (\<open>if suggestion.area\<close>).
\<close>

definition suggestions_to_review :: "(string \<Rightarrow> nat) \<Rightarrow> config \<Rightarrow> keyword_map \<Rightarrow> Note list \<Rightarrow> suggestion list" where
  "suggestions_to_review rank cfg km notes =
     concat (map (\<lambda>n. if \<not> has_complete_metadata n
                       then (let s = analyze_note rank cfg km notes n
                             in if area s \<noteq> None \<and> area s \<noteq> Some [] then [s] else [])
                       else []) notes)"

text \<open>One suggested field: its line and the line of the unchecked box.\<close>

definition field_lines :: "string \<Rightarrow> string \<Rightarrow> string" where
  "field_lines line_label v =
     ''- **'' @ line_label @ '':** '' @ v @ [CHR 0x0A] @ ''  - Decis'' @ [CHR 0xE3] @ ''o: [ ]'' @ [CHR 0x0A]"

definition label_lines :: "string \<Rightarrow> string option \<Rightarrow> string" where
  "label_lines line_label v =
     (case v of None \<Rightarrow> [] | Some x \<Rightarrow> if x = [] then [] else field_lines line_label x)"

definition list_lines :: "string \<Rightarrow> string list \<Rightarrow> string" where
  "list_lines line_label vs = (if vs = [] then [] else field_lines line_label (join '', '' vs))"

text \<open>
  The section of one suggestion; \<open>fmt\<close> renders the confidence (\<open>:.2f\<close>), \<open>n\<close> is
  \<open>self.notes[suggestion.note_id]\<close>.
\<close>

definition section_text :: "(real \<Rightarrow> string) \<Rightarrow> Note \<Rightarrow> suggestion \<Rightarrow> string" where
  "section_text fmt n s =
     ''## Nota: '' @ title n @ [CHR 0x0A]
     @ ''**Arquivo:** `'' @ note_id s @ ''`'' @ [CHR 0x0A]
     @ ''**Confian'' @ [CHR 0xE7] @ ''a:** '' @ fmt (confidence s) @ [CHR 0x0A, CHR 0x0A]
     @ label_lines ([CHR 0xC1] @ ''rea'') (area s)
     @ label_lines (''Sub'' @ [CHR 0xE1] @ ''rea'') (subarea s)
     @ label_lines (''T'' @ [CHR 0xF3] @ ''pico'') (topico s)
     @ list_lines ''Tags'' (tags s)
     @ (case relevancia_cacd s of
          None \<Rightarrow> []
        | Some r \<Rightarrow> if r = 0 then []
                    else field_lines (''Relev'' @ [CHR 0xE2] @ ''ncia CACD'') (str_int r @ ''/5''))
     @ list_lines (''Conex'' @ [CHR 0xF5] @ ''es'') (conexoes s)
     @ [CHR 0x0A] @ ''---'' @ [CHR 0x0A, CHR 0x0A]"

definition header_text :: "string \<Rightarrow> string" where
  "header_text now =
     ''# CACD - Revis'' @ [CHR 0xE3] @ ''o de Metadados'' @ [CHR 0x0A, CHR 0x0A]
     @ ''Gerado em: '' @ now @ [CHR 0x0A, CHR 0x0A]
     @ ''**Instru'' @ [CHR 0xE7] @ [CHR 0xF5] @ ''es:** Marque com [x] para aprovar, [ ] para rejeitar''
     @ [CHR 0x0A, CHR 0x0A]"

text \<open>
  The writing loop. A suggestion whose note is not in the dictionary raises \<open>KeyError\<close>:
  the function returns \<open>False\<close> and the file keeps what was written before.
\<close>

fun write_sections :: "(real \<Rightarrow> string) \<Rightarrow> Note list \<Rightarrow> suggestion list \<Rightarrow> string \<Rightarrow> string \<times> bool" where
  "write_sections fmt notes [] out = (out, True)"
| "write_sections fmt notes (s # ss) out =
     (case find (\<lambda>n. note_key n = note_id s) notes of
        None \<Rightarrow> (out, False)
      | Some n \<Rightarrow> write_sections fmt notes ss (out @ section_text fmt n s))"

text \<open>\<open>vault_path / name\<close> for a relative name.\<close>

definition path_join :: "string \<Rightarrow> string \<Rightarrow> string" where
  "path_join dir name = dir @ ''/'' @ name"

text \<open>
  \<open>CACDMetadataAnalyzer.generate_feedback_file\<close>; \<open>now\<close> is the rendered time of the
  run.
\<close>

definition generate_feedback_file ::
  "(string \<Rightarrow> nat) \<Rightarrow> string \<Rightarrow> (real \<Rightarrow> string) \<Rightarrow> string \<Rightarrow> config \<Rightarrow> keyword_map \<Rightarrow> Note list \<Rightarrow> filesystem
     \<Rightarrow> filesystem \<times> bool" where
  "generate_feedback_file rank now fmt vault_path cfg km notes fs =
     (let suggestions = suggestions_to_review rank cfg km notes
      in if suggestions = [] then (fs, False)
         else let feedback_path = path_join vault_path (feedback_file cfg);
                  written = write_sections fmt notes suggestions (header_text now)
              in (fs(feedback_path \<mapsto> fst written), snd written))"

subsection \<open>Parsing\<close>

text \<open>
  \<open>re.search(r'\*\*(.+?):\*\* (.+)', line)\<close> on a line without line break: the leftmost
  \<open>**\<close> after which some shortest non-empty text is followed by \<open>:** \<close> and a
  non-empty rest. The groups are that text and the rest of the line.
\<close>

fun lazy_group :: "string \<Rightarrow> string \<Rightarrow> (string \<times> string) option" where
  "lazy_group g [] = None"
| "lazy_group g (c # cs) =
     (if startswith cs '':** '' \<and> drop 4 cs \<noteq> [] then Some (g @ [c], drop 4 cs)
      else lazy_group (g @ [c]) cs)"

fun field_search :: "string \<Rightarrow> (string \<times> string) option" where
  "field_search [] = None"
| "field_search (c # cs) =
     (if startswith (c # cs) ''**''
      then (case lazy_group [] (drop 2 (c # cs)) of
              Some groups \<Rightarrow> Some groups
            | None \<Rightarrow> field_search cs)
      else field_search cs)"

text \<open>
  \<open>int(s)\<close>: white space around, an optional sign, decimal digits with single
  underscores between them; \<open>None\<close> stands for \<open>ValueError\<close>. The white space that
  \<open>int\<close> skips is that of \<open>str.isspace\<close> without the separators U+001C to U+001F.
\<close>

definition int_space :: "char \<Rightarrow> bool" where
  "int_space c = ((9 \<le> code c \<and> code c \<le> 13) \<or> code c = 32 \<or> code c = 0x85 \<or> code c = 0xA0)"

definition isdigit :: "char \<Rightarrow> bool" where
  "isdigit c = (0x30 \<le> code c \<and> code c \<le> 0x39)"

fun digits_ok :: "string \<Rightarrow> bool" where
  "digits_ok [] = False"
| "digits_ok [c] = isdigit c"
| "digits_ok (c # d # cs) =
     (isdigit c \<and> (if d = CHR ''_'' then digits_ok cs else digits_ok (d # cs)))"

definition digits_value :: "string \<Rightarrow> int" where
  "digits_value s = fold (\<lambda>c v. if isdigit c then 10 * v + (int (code c) - 48) else v) s 0"

definition py_int :: "string \<Rightarrow> int option" where
  "py_int s =
     (case rev (dropWhile int_space (rev (dropWhile int_space s))) of
        [] \<Rightarrow> None
      | c # cs \<Rightarrow>
          if c = CHR ''-'' then (if digits_ok cs then Some (- digits_value cs) else None)
          else if c = CHR ''+'' then (if digits_ok cs then Some (digits_value cs) else None)
          else if digits_ok (c # cs) then Some (digits_value (c # cs)) else None)"

definition field_mapping :: "(string \<times> string) list" where
  "field_mapping =
     [([CHR 0xE1] @ ''rea'', ''area''),
      (''sub'' @ [CHR 0xE1] @ ''rea'', ''subarea''),
      (''t'' @ [CHR 0xF3] @ ''pico'', ''topico''),
      (''tags'', ''tags''),
      (''relev'' @ [CHR 0xE2] @ ''ncia cacd'', ''relevancia_cacd''),
      (''conex'' @ [CHR 0xF5] @ ''es'', ''conexoes'')]"

text \<open>The value stored for an approved field; \<open>None\<close> when \<open>int\<close> raises.\<close>

definition convert_field :: "string \<Rightarrow> string \<Rightarrow> yval option" where
  "convert_field mapped_field field_value =
     (if mapped_field = ''tags''
      then Some (YList (map (\<lambda>tag. YStr (strip tag)) (split_on CHR '','' field_value)))
      else if mapped_field = ''relevancia_cacd''
      then (case split_on CHR ''/'' field_value of
              [] \<Rightarrow> None
            | p # _ \<Rightarrow> (case py_int p of None \<Rightarrow> None | Some i \<Rightarrow> Some (YInt i)))
      else if mapped_field = ''conexoes''
      then Some (YList (map (\<lambda>conn. YStr (strip conn)) (split_on CHR '','' field_value)))
      else Some (YStr field_value))"

text \<open>
  \<open>lines.index(line)\<close>: the position of the first element equal to \<open>line\<close>. The line
  looked up is an element of the list.
\<close>

fun index :: "string list \<Rightarrow> string \<Rightarrow> nat" where
  "index [] x = 0"
| "index (y # ys) x = (if y = x then 0 else Suc (index ys x))"

text \<open>
  \<open>content.split('\n')[content.split('\n').index(line) - 1]\<close>; the index \<open>-1\<close> is the
  last element.
\<close>

definition prev_line :: "string list \<Rightarrow> string \<Rightarrow> string" where
  "prev_line lines line =
     (let i = index lines line in if i = 0 then last lines else lines ! (i - 1))"

text \<open>
  \<open>approved_changes[current_note][mapped_field] = v\<close> on a \<open>defaultdict(dict)\<close>, which
  keeps the titles in the order of their first assignment.
\<close>

fun set_field :: "(string \<times> header) list \<Rightarrow> string \<Rightarrow> string \<Rightarrow> yval \<Rightarrow> (string \<times> header) list" where
  "set_field [] t f v = [(t, [f \<mapsto> v])]"
| "set_field ((t', h) # rest) t f v =
     (if t' = t then (t', h(f \<mapsto> v)) # rest else (t', h) # set_field rest t f v)"

text \<open>
  The loop over the lines of the review file. \<open>all_lines\<close> is \<open>content.split('\n')\<close>,
  \<open>current_note\<close> and \<open>approved_changes\<close> are the variables of the source; the result is
  \<open>None\<close> when \<open>int\<close> raises \<open>ValueError\<close>.
\<close>

fun parse_lines ::
  "string list \<Rightarrow> string list \<Rightarrow> string option \<Rightarrow> (string \<times> header) list
     \<Rightarrow> (string \<times> header) list option" where
  "parse_lines all_lines [] current_note approved_changes = Some approved_changes"
| "parse_lines all_lines (line # rest) current_note approved_changes =
     (if startswith line ''## Nota:''
      then parse_lines all_lines rest (Some (strip (replace line ''## Nota:'' []))) approved_changes
      else if contains line (''- Decis'' @ [CHR 0xE3] @ ''o: [x]'')
      then (let prev = prev_line all_lines line
            in case current_note of
                 None \<Rightarrow> parse_lines all_lines rest current_note approved_changes
               | Some cur \<Rightarrow>
                   if cur \<noteq> [] \<and> contains prev ''**''
                   then (case field_search prev of
                           None \<Rightarrow> parse_lines all_lines rest current_note approved_changes
                         | Some groups \<Rightarrow>
                             (case map_of field_mapping (lower (fst groups)) of
                                None \<Rightarrow> parse_lines all_lines rest current_note approved_changes
                              | Some mapped_field \<Rightarrow>
                                  (case convert_field mapped_field (snd groups) of
                                     None \<Rightarrow> None
                                   | Some v \<Rightarrow>
                                       parse_lines all_lines rest current_note
                                         (set_field approved_changes cur mapped_field v))))
                   else parse_lines all_lines rest current_note approved_changes)
      else parse_lines all_lines rest current_note approved_changes)"

definition parse_feedback :: "string \<Rightarrow> (string \<times> header) list option" where
  "parse_feedback text = (let ls = split_on (CHR 0x0A) text in parse_lines ls ls None [])"

subsection \<open>Application\<close>

text \<open>
  \<open>Path.with_suffix\<close>: the suffix of a path is the part of its last component from the
  last dot on, when that dot is neither the first nor the last character of the
  component.
\<close>

definition path_name :: "string \<Rightarrow> string" where
  "path_name p = rev (takeWhile (\<lambda>c. c \<noteq> CHR ''/'') (rev p))"

definition path_suffix :: "string \<Rightarrow> string" where
  "path_suffix p =
     (let name = path_name p; ext = rev (takeWhile (\<lambda>c. c \<noteq> CHR ''.'') (rev name))
      in if CHR ''.'' \<in> set name \<and> length ext + 1 < length name \<and> ext \<noteq> [] then CHR ''.'' # ext
         else [])"

definition with_suffix :: "string \<Rightarrow> string \<Rightarrow> string" where
  "with_suffix p s = take (length p - length (path_suffix p)) p @ s"

text \<open>
  The YAML library is outside the repository: \<open>yaml.safe_load\<close> is a function from the
  text to the loaded value (\<open>None\<close> when it raises \<open>YAMLError\<close>) and \<open>yaml.dump\<close> a
  function from a header to its text.
\<close>

type_synonym yaml_load = "string \<Rightarrow> yval option"
type_synonym yaml_dump = "header \<Rightarrow> string"

text \<open>
  \<open>content.split('---', 2)\<close> of a content that starts with \<open>---\<close>: the second and third
  part, when there are three.
\<close>

fun find_separator :: "string \<Rightarrow> string \<Rightarrow> (string \<times> string) option" where
  "find_separator before [] = None"
| "find_separator before (c # cs) =
     (if startswith (c # cs) ''---'' then Some (before, drop 3 (c # cs))
      else find_separator (before @ [c]) cs)"

definition split_header :: "string \<Rightarrow> (string \<times> string) option" where
  "split_header text =
     (if startswith text ''---'' then find_separator [] (drop 3 text) else None)"

text \<open>
  \<open>yaml.safe_load(parts[1]) or {}\<close> as the dictionary that \<open>frontmatter.update\<close> needs:
  \<open>None\<close> when the loaded value is true and no mapping (\<open>AttributeError\<close>).
\<close>

definition header_of :: "yval \<Rightarrow> header option" where
  "header_of v =
     (if \<not> truthy v then Some Map.empty
      else case v of YDict kvs \<Rightarrow> Some (map_of kvs) | _ \<Rightarrow> None)"

definition read_header :: "yaml_load \<Rightarrow> string \<Rightarrow> header option \<times> string" where
  "read_header load text =
     (case split_header text of
        None \<Rightarrow> (Some Map.empty, text)
      | Some parts \<Rightarrow>
          ((case load (fst parts) of None \<Rightarrow> Some Map.empty | Some v \<Rightarrow> header_of v), snd parts))"

text \<open>
  A file opened for reading in text mode is read with universal newlines: a carriage
  return followed by a line feed, and a carriage return alone, are read as one line feed.
  A text written is stored as it is (the line separator of the platform is the line feed).
\<close>

fun read_text :: "string \<Rightarrow> string" where
  "read_text [] = []"
| "read_text [c] = (if c = CHR 0x0D then [CHR 0x0A] else [c])"
| "read_text (c # d # cs) =
     (if c = CHR 0x0D then (if d = CHR 0x0A then CHR 0x0A # read_text cs else CHR 0x0A # read_text (d # cs))
      else c # read_text (d # cs))"

text \<open>
  \<open>CACDMetadataAnalyzer._apply_metadata_changes\<close>: the files, the note (its header in
  memory is updated last) and the result. Every exception is caught and gives \<open>False\<close>
  with the files as they are at that moment.
\<close>

definition apply_metadata_changes ::
  "yaml_load \<Rightarrow> yaml_dump \<Rightarrow> config \<Rightarrow> filesystem \<Rightarrow> Note \<Rightarrow> header \<Rightarrow> filesystem \<times> Note \<times> bool" where
  "apply_metadata_changes load dump cfg fs n changes =
     (let backup_path = with_suffix (file_path n) ''.bak'';
          renames = (backup_original cfg \<and> fs backup_path = None)
      in if renames \<and> fs (file_path n) = None then (fs, n, False)
         else let fs1 = (if renames then (fs(file_path n := None))(backup_path := fs (file_path n))
                         else fs);
                  path = (if renames then with_suffix backup_path ''.md'' else file_path n)
              in case fs1 path of
                   None \<Rightarrow> (fs1, n, False)
                 | Some stored \<Rightarrow>
                     (case read_header load (read_text stored) of
                        (None, main_content) \<Rightarrow> (fs1, n, False)
                      | (Some fm, main_content) \<Rightarrow>
                          (fs1(path \<mapsto> ''---'' @ [CHR 0x0A] @ dump (fm ++ changes) @ ''---''
                                          @ [CHR 0x0A] @ main_content),
                           n\<lparr>frontmatter := frontmatter n ++ changes\<rparr>, True)))"

text \<open>
  The note found by \<open>_find_note_by_title\<close> is an object of the dictionary: updating it
  updates the first note of that title in the list.
\<close>

fun update_first :: "string \<Rightarrow> Note \<Rightarrow> Note list \<Rightarrow> Note list" where
  "update_first t n' [] = []"
| "update_first t n' (n # ns) = (if title n = t then n' # ns else n # update_first t n' ns)"

text \<open>The loop that applies the approved changes and counts the notes changed.\<close>

fun apply_all ::
  "yaml_load \<Rightarrow> yaml_dump \<Rightarrow> config \<Rightarrow> (string \<times> header) list \<Rightarrow> filesystem \<Rightarrow> Note list \<Rightarrow> nat
     \<Rightarrow> filesystem \<times> Note list \<times> nat" where
  "apply_all load dump cfg [] fs notes changes_applied = (fs, notes, changes_applied)"
| "apply_all load dump cfg (entry # rest) fs notes changes_applied =
     (case find (\<lambda>n. title n = fst entry) notes of
        None \<Rightarrow> apply_all load dump cfg rest fs notes changes_applied
      | Some n \<Rightarrow>
          (case apply_metadata_changes load dump cfg fs n (snd entry) of
             (fs', n', ok) \<Rightarrow>
               apply_all load dump cfg rest fs' (update_first (fst entry) n' notes)
                 (if ok then changes_applied + 1 else changes_applied)))"

text \<open>
  \<open>CACDMetadataAnalyzer.process_feedback_file\<close>: the files, the notes and the result.
\<close>

definition process_feedback_file ::
  "yaml_load \<Rightarrow> yaml_dump \<Rightarrow> string \<Rightarrow> config \<Rightarrow> filesystem \<Rightarrow> Note list
     \<Rightarrow> filesystem \<times> Note list \<times> bool" where
  "process_feedback_file load dump vault_path cfg fs notes =
     (let feedback_path = path_join vault_path (feedback_file cfg)
      in case fs feedback_path of
           None \<Rightarrow> (fs, notes, False)
         | Some stored \<Rightarrow>
             (case parse_feedback (read_text stored) of
                None \<Rightarrow> (fs, notes, False)
              | Some approved_changes \<Rightarrow>
                  (case apply_all load dump cfg approved_changes fs notes 0 of
                     (fs', notes', changes_applied) \<Rightarrow>
                       (case fs' feedback_path of
                          None \<Rightarrow> (fs', notes', False)
                        | Some fb \<Rightarrow>
                            ((fs'(feedback_path := None))
                               (with_suffix feedback_path ''.processed.md'' \<mapsto> fb),
                             notes', True)))))"

text \<open>
  The operator approves every suggested field: each unchecked box of the review file
  becomes a checked one.
\<close>

definition approve_all :: "string \<Rightarrow> string" where
  "approve_all text =
     replace text (''- Decis'' @ [CHR 0xE3] @ ''o: [ ]'') (''- Decis'' @ [CHR 0xE3] @ ''o: [x]'')"

text \<open>
  The round trip of the review file: generate it, approve every field, process it.
\<close>

definition review_round_trip ::
  "(string \<Rightarrow> nat) \<Rightarrow> string \<Rightarrow> (real \<Rightarrow> string) \<Rightarrow> yaml_load \<Rightarrow> yaml_dump \<Rightarrow> string \<Rightarrow> config \<Rightarrow> keyword_map
     \<Rightarrow> Note list \<Rightarrow> filesystem \<Rightarrow> filesystem \<times> Note list \<times> bool" where
  "review_round_trip rank now fmt load dump vault_path cfg km ns fs =
     (case generate_feedback_file rank now fmt vault_path cfg km ns fs of
        (fs1, generated) \<Rightarrow>
          (case fs1 (path_join vault_path (feedback_file cfg)) of
             None \<Rightarrow> (fs1, ns, False)
           | Some review \<Rightarrow>
               if generated
               then process_feedback_file load dump vault_path cfg
                      (fs1(path_join vault_path (feedback_file cfg) \<mapsto> approve_all review)) ns
               else (fs1, ns, False)))"

section \<open>Notions of the specification\<close>

text \<open>
  The labels a word points to are the entries of its list in the keyword map, which
  \<open>_build_keyword_map\<close> appends to once for every occurrence of the word in a label: a
  label that holds a word twice is entered twice in the list of that word.
  \<open>list_match_count\<close> is the count that \<open>classify_text\<close> keeps for a label triple: one for
  every occurrence of a word in the text and every entry of the triple in the list of the
  word.
\<close>

definition labels_of :: "keyword_map \<Rightarrow> string \<Rightarrow> label list" where
  "labels_of km w = (case km w of None \<Rightarrow> [] | Some ls \<Rightarrow> ls)"

definition list_match_count :: "keyword_map \<Rightarrow> string list \<Rightarrow> label \<Rightarrow> nat" where
  "list_match_count km ws l = sum_list (map (\<lambda>w. count_list (labels_of km w) l) ws)"

text \<open>
  The match count in the words of the specification, where a word maps to a set of label
  triples and each word of the text that is in the index increments the counter of every
  triple it points to: the number of occurrences of words of the text whose set holds the
  triple. \<open>set_best_score\<close> is the highest of these counts, 0 when no word matches.
\<close>

definition set_match_count :: "keyword_map \<Rightarrow> string list \<Rightarrow> label \<Rightarrow> nat" where
  "set_match_count km ws l = length (filter (\<lambda>w. l \<in> set (labels_of km w)) ws)"

definition set_best_score :: "keyword_map \<Rightarrow> string list \<Rightarrow> nat" where
  "set_best_score km ws =
     fold max (map (set_match_count km ws) (concat (map (labels_of km) ws))) 0"

text \<open>
  A header value is non-empty, in the words of the specification, when it is a value
  other than null, the empty string, the empty list and the empty mapping; a number or a
  truth value is a value. (\<open>truthy\<close> is what the code tests.)
\<close>

fun non_empty :: "yval \<Rightarrow> bool" where
  "non_empty YNull = False"
| "non_empty (YBool b) = True"
| "non_empty (YInt i) = True"
| "non_empty (YFloat r) = True"
| "non_empty (YStr s) = (s \<noteq> [])"
| "non_empty (YList vs) = (vs \<noteq> [])"
| "non_empty (YDict kvs) = (kvs \<noteq> [])"

section \<open>Notions of the proofs\<close>

text \<open>
  A character is stable when neither decomposition nor lowering changes it, and clean
  when it is stable and a word character or white space: the characters that
  \<open>_normalize_text\<close> leaves are clean. A good word is not empty and holds no white space.
\<close>

definition stable :: "char \<Rightarrow> bool" where
  "stable c = (decompose c = [code c] \<and> lower_char c = c)"

definition clean_char :: "char \<Rightarrow> bool" where
  "clean_char c = (stable c \<and> (isword c \<or> isspace c))"

definition good_word :: "string \<Rightarrow> bool" where
  "good_word w = (w \<noteq> [] \<and> (\<forall>c\<in>set w. \<not> isspace c))"

text \<open>
  The count that \<open>matches\<close> holds for a label; \<open>matches\<close> is counted when its keys are
  distinct and its counts positive; a keyword map has non-empty lists when no word maps
  to the empty list.
\<close>

definition count_of :: "(label \<times> nat) list \<Rightarrow> label \<Rightarrow> nat" where
  "count_of m l = (case map_of m l of None \<Rightarrow> 0 | Some c \<Rightarrow> c)"

definition counted :: "(label \<times> nat) list \<Rightarrow> bool" where
  "counted m = (distinct (map fst m) \<and> (\<forall>x\<in>set m. 0 < snd x))"

definition nonempty_lists :: "keyword_map \<Rightarrow> bool" where
  "nonempty_lists km = (\<forall>w ls. km w = Some ls \<longrightarrow> ls \<noteq> [])"

text \<open>
  The section that \<open>generate_feedback_file\<close> writes for a suggestion: the text of the
  section of the note with the key of the suggestion, nothing when the store has no such
  note.
\<close>

definition section_of :: "(real \<Rightarrow> string) \<Rightarrow> Note list \<Rightarrow> suggestion \<Rightarrow> string" where
  "section_of fmt ns s =
     (case find (\<lambda>n. note_key n = note_id s) ns of None \<Rightarrow> [] | Some n \<Rightarrow> section_text fmt n s)"

section \<open>Example inputs\<close>

text \<open>Notes and configurations at which the theorems below are evaluated.\<close>

definition geo_a :: Note where
  "geo_a = \<lparr>note_key = ''a.md'', title = ''A'', content = ''x'',
            frontmatter = Map.empty, file_path = ''vault/a.md'', last_modified = 0\<rparr>"

definition geo_b :: Note where
  "geo_b = \<lparr>note_key = ''b.md'', title = ''B'', content = ''y'',
            frontmatter = [''area'' \<mapsto> YStr ''Geografia''], file_path = ''vault/b.md'',
            last_modified = 0\<rparr>"

definition geo_c :: Note where
  "geo_c = \<lparr>note_key = ''c.md'', title = ''C'', content = ''z'',
            frontmatter = [''area'' \<mapsto> YStr ''Geografia''], file_path = ''vault/c.md'',
            last_modified = 0\<rparr>"



definition tag_note :: Note where
  "tag_note = \<lparr>note_key = ''n.md'', title = ''T'', content = ''guerra paz onu'',
               frontmatter = Map.empty, file_path = ''vault/n.md'', last_modified = 0\<rparr>"

definition para_note :: Note where
  "para_note = \<lparr>note_key = ''guerra.md'', title = ''Guerra do Paraguai'', content = ''Paraguai'',
                frontmatter = Map.empty, file_path = ''vault/guerra.md'', last_modified = 0\<rparr>"

definition note_a :: Note where
  "note_a = \<lparr>note_key = ''a.md'', title = ''A'', content = ''x'',
             frontmatter = Map.empty, file_path = ''vault/a.md'', last_modified = 0\<rparr>"

definition note_b :: Note where
  "note_b = \<lparr>note_key = ''b.md'', title = ''B'', content = ''y'',
             frontmatter = Map.empty, file_path = ''vault/b.md'', last_modified = 0\<rparr>"

definition approved_review :: string where
  "approved_review =
     ''## Nota: A'' @ [CHR 0x0A]
     @ ''- **'' @ [CHR 0xC1] @ ''rea:** Geografia'' @ [CHR 0x0A]
     @ ''  - Decis'' @ [CHR 0xE3] @ ''o: [x]'' @ [CHR 0x0A]
     @ ''## Nota: B'' @ [CHR 0x0A]
     @ ''- **'' @ [CHR 0xC1] @ ''rea:** Geografia'' @ [CHR 0x0A]
     @ ''  - Decis'' @ [CHR 0xE3] @ ''o: [x]'' @ [CHR 0x0A]"

definition vault_files :: filesystem where
  "vault_files =
     [''vault/a.md'' \<mapsto> ''x'', ''vault/b.md'' \<mapsto> ''y'', ''vault/b.bak'' \<mapsto> ''old'',
      ''vault/cacd_feedback.md'' \<mapsto> approved_review]"

definition geo_taxonomy :: taxonomy where
  "geo_taxonomy = [(''Geografia'', YDict [])]"

definition geo_note :: Note where
  "geo_note = \<lparr>note_key = ''g.md'', title = ''A'', content = ''geografia'',
               frontmatter = Map.empty, file_path = ''vault/g.md'', last_modified = 0\<rparr>"

definition done_note :: Note where
  "done_note = \<lparr>note_key = ''c.md'', title = ''A'', content = ''geografia'',
                frontmatter = [''area'' \<mapsto> YStr ''Geografia'', ''relevancia_cacd'' \<mapsto> YInt 5],
                file_path = ''vault/c.md'', last_modified = 0\<rparr>"

definition zero_note :: Note where
  "zero_note = \<lparr>note_key = ''z.md'', title = ''A'', content = ''geografia'',
                frontmatter = [''area'' \<mapsto> YStr ''Geografia'', ''relevancia_cacd'' \<mapsto> YInt 0],
                file_path = ''vault/z.md'', last_modified = 0\<rparr>"

definition no_backup :: config where
  "no_backup = default_config\<lparr>backup_original := False\<rparr>"

definition direito_taxonomy :: taxonomy where
  "direito_taxonomy = [(''Direito interno e direito internacional'', YDict [])]"

definition direito_text :: string where
  "direito_text = ''direito a b c d e f g h i j''"

definition geo_review :: string where
  "geo_review =
     ''# CACD - Revis'' @ [CHR 0xE3] @ ''o de Metadados'' @ [CHR 0x0A, CHR 0x0A]
     @ ''Gerado em: 2026-11-03 12:00'' @ [CHR 0x0A, CHR 0x0A]
     @ ''**Instru'' @ [CHR 0xE7] @ [CHR 0xF5] @ ''es:** Marque com [x] para aprovar, [ ] para rejeitar''
     @ [CHR 0x0A, CHR 0x0A]
     @ ''## Nota: A'' @ [CHR 0x0A]
     @ ''**Arquivo:** `g.md`'' @ [CHR 0x0A]
     @ ''**Confian'' @ [CHR 0xE7] @ ''a:** 1.00'' @ [CHR 0x0A, CHR 0x0A]
     @ ''- **'' @ [CHR 0xC1] @ ''rea:** Geografia'' @ [CHR 0x0A]
     @ ''  - Decis'' @ [CHR 0xE3] @ ''o: [ ]'' @ [CHR 0x0A]
     @ ''- **Relev'' @ [CHR 0xE2] @ ''ncia CACD:** 4/5'' @ [CHR 0x0A]
     @ ''  - Decis'' @ [CHR 0xE3] @ ''o: [ ]'' @ [CHR 0x0A]
     @ [CHR 0x0A] @ ''---'' @ [CHR 0x0A, CHR 0x0A]"

section \<open>Normalization is idempotent\<close>

lemma code_char_of: "n < 256 \<Longrightarrow> code (char_of n) = n"
  by (simp add: code_def)

lemma code_less: "code c < 256"
  by (simp add: code_def)

lemma char_of_code: "char_of (code c) = c"
  by (simp add: code_def)

lemma table_below: "n < 0xC0 \<Longrightarrow> map_of canonical_decomposition n = None"
  by (simp add: canonical_decomposition_def)

lemma table_shift:
  assumes "0xC0 \<le> n" "n \<le> 0xDE" "map_of canonical_decomposition n = None"
  shows "map_of canonical_decomposition (n + 32) = None"
proof -
  from assms(1,2) have "n \<in> {0xC0..<0xDF}" by simp
  then have "n \<in> set [0xC0..<0xDF]" by (simp only: set_upt)
  then have "map_of canonical_decomposition n = None \<longrightarrow> map_of canonical_decomposition (n + 32) = None"
    unfolding canonical_decomposition_def by (simp del: set_upt) fastforce
  with assms(3) show ?thesis by simp
qed


lemma table_some:
  "map_of canonical_decomposition n = Some d \<Longrightarrow>
     \<exists>b m. d = [b, m] \<and> category_Mn m \<and> ((0x41 \<le> b \<and> b \<le> 0x5A) \<or> (0x61 \<le> b \<and> b \<le> 0x7A))"
  by (auto simp: canonical_decomposition_def category_Mn_def split: if_splits)

lemma stable_undecomposed:
  assumes "map_of canonical_decomposition (code c) = None"
  shows "stable (lower_char c)"
proof -
  let ?n = "code c"
  have n: "?n < 256" by (rule code_less)
  consider (az) "0x41 \<le> ?n \<and> ?n \<le> 0x5A"
    | (acc) "0xC0 \<le> ?n \<and> ?n \<le> 0xDE \<and> ?n \<noteq> 0xD7"
    | (other) "\<not> (0x41 \<le> ?n \<and> ?n \<le> 0x5A) \<and> \<not> (0xC0 \<le> ?n \<and> ?n \<le> 0xDE \<and> ?n \<noteq> 0xD7)"
    by blast
  then show ?thesis
  proof cases
    case az
    then have l: "lower_char c = char_of (?n + 32)" by (simp add: lower_char_def)
    from az have c: "code (char_of (?n + 32)) = ?n + 32" by (simp add: code_char_of)
    from az have "map_of canonical_decomposition (?n + 32) = None" by (simp add: table_below)
    with az l c show ?thesis by (simp add: stable_def decompose_def lower_char_def)
  next
    case acc
    then have l: "lower_char c = char_of (?n + 32)" by (simp add: lower_char_def)
    from acc have c: "code (char_of (?n + 32)) = ?n + 32" by (simp add: code_char_of)
    from acc assms have "map_of canonical_decomposition (?n + 32) = None" by (simp add: table_shift)
    with acc l c show ?thesis by (simp add: stable_def decompose_def lower_char_def)
  next
    case other
    then have "lower_char c = c" unfolding lower_char_def by presburger
    with assms show ?thesis by (simp add: stable_def decompose_def)
  qed
qed

lemma decompose_unmarked:
  assumes "b \<in> set (decompose c)" "\<not> category_Mn b"
  shows "b < 256 \<and> stable (lower_char (char_of b))"
proof (cases "map_of canonical_decomposition (code c)")
  case None
  with assms have "b = code c" by (simp add: decompose_def)
  with None show ?thesis by (simp add: code_less char_of_code stable_undecomposed)
next
  case (Some d)
  from table_some [OF Some] obtain b' m where d: "d = [b', m]" "category_Mn m"
    and b': "(0x41 \<le> b' \<and> b' \<le> 0x5A) \<or> (0x61 \<le> b' \<and> b' \<le> 0x7A)" by blast
  with assms Some have bb: "b = b'" by (auto simp: decompose_def)
  from b' have lt: "b' < 0xC0" by auto
  then have "code (char_of b') = b'" by (simp add: code_char_of)
  with lt have "map_of canonical_decomposition (code (char_of b')) = None" by (simp add: table_below)
  then have "stable (lower_char (char_of b'))" by (rule stable_undecomposed)
  with bb lt show ?thesis by simp
qed

lemma stable_space: "stable CHR '' ''"
  by (simp add: stable_def decompose_def lower_char_def code_def canonical_decomposition_def)

lemma isspace_space: "isspace CHR '' ''"
  by (simp add: isspace_def code_def)

lemma cleaned_chars:
  assumes "c \<in> set (sub_special (lower (map char_of (filter (\<lambda>c. \<not> category_Mn c) (NFD x)))))"
  shows "clean_char c"
proof -
  from assms obtain d where d: "d \<in> set (lower (map char_of (filter (\<lambda>c. \<not> category_Mn c) (NFD x))))"
    and c: "c = (if isword d \<or> isspace d then d else CHR '' '')"
    by (auto simp: sub_special_def)
  from d obtain b c0 where "b \<in> set (decompose c0)" "\<not> category_Mn b" "d = lower_char (char_of b)"
    by (auto simp: lower_def NFD_def)
  then have "stable d" using decompose_unmarked by blast
  with c show ?thesis by (auto simp: clean_char_def stable_space isspace_space)
qed


lemma split_acc_nospace:
  "\<forall>c\<in>set v. \<not> isspace c \<Longrightarrow> split_acc w (v @ r) = split_acc (w @ v) r"
  by (induction v arbitrary: w) auto

lemma split_acc_words:
  "\<forall>c\<in>set w. \<not> isspace c \<Longrightarrow> u \<in> set (split_acc w s) \<Longrightarrow> good_word u \<and> set u \<subseteq> set w \<union> set s"
proof (induction w s rule: split_acc.induct)
  case (1 w)
  then show ?case by (auto simp: good_word_def split: if_splits)
next
  case (2 w c cs)
  show ?case
  proof (cases "isspace c")
    case True
    with 2 show ?thesis by (cases "w = []") (auto simp: good_word_def)
  next
    case False
    with 2 show ?thesis by auto
  qed
qed

lemma split_join:
  "\<forall>w\<in>set ws. good_word w \<Longrightarrow> split_acc [] (join '' '' ws) = ws"
proof (induction ws)
  case Nil
  then show ?case by simp
next
  case (Cons w ws)
  then have w: "w \<noteq> []" "\<forall>c\<in>set w. \<not> isspace c" by (auto simp: good_word_def)
  show ?case
  proof (cases ws)
    case Nil
    have "split_acc [] (w @ []) = split_acc ([] @ w) []" using w(2) by (rule split_acc_nospace)
    with w Nil show ?thesis by simp
  next
    case (Cons v vs)
    have "split_acc [] (w @ ('' '' @ join '' '' (v # vs))) = split_acc ([] @ w) ('' '' @ join '' '' (v # vs))"
      using w(2) by (rule split_acc_nospace)
    with w Cons Cons.IH Cons.prems show ?thesis by (simp add: isspace_space)
  qed
qed

lemma set_join: "set (join sep ws) \<subseteq> set sep \<union> \<Union> (set ` set ws)"
  by (induction sep ws rule: join.induct) auto

lemma NFD_stable: "\<forall>c\<in>set y. stable c \<Longrightarrow> NFD y = map code y"
  by (induction y) (auto simp: NFD_def stable_def)

lemma unmarked_codes: "filter (\<lambda>n. \<not> category_Mn n) (map code y) = map code y"
proof -
  have "\<not> category_Mn (code c)" for c
    using code_less [of c] by (simp add: category_Mn_def)
  then show ?thesis by (induction y) auto
qed

lemma normalize_fixed:
  assumes "\<forall>w\<in>set ws. good_word w \<and> (\<forall>c\<in>set w. clean_char c)"
  shows "normalize_text (join '' '' ws) = join '' '' ws"
proof (cases "join '' '' ws = []")
  case True
  then show ?thesis by (simp add: normalize_text_def)
next
  case False
  let ?y = "join '' '' ws"
  have clean: "clean_char c" if "c \<in> set ?y" for c
  proof -
    from that set_join [of "'' ''" ws] have "c = CHR '' '' \<or> (\<exists>w\<in>set ws. c \<in> set w)" by auto
    with assms show ?thesis by (auto simp: clean_char_def stable_space isspace_space)
  qed
  then have st: "\<forall>c\<in>set ?y. stable c" by (simp add: clean_char_def)
  have 1: "map char_of (filter (\<lambda>c. \<not> category_Mn c) (NFD ?y)) = ?y"
    by (simp add: NFD_stable [OF st] unmarked_codes char_of_code comp_def)
  have 2: "lower ?y = ?y"
    unfolding lower_def using st by (intro map_idI) (simp add: stable_def)
  have 3: "sub_special ?y = ?y"
    unfolding sub_special_def using clean by (intro map_idI) (auto simp: clean_char_def)
  have 4: "split ?y = ws"
    unfolding split_def using assms by (intro split_join) simp
  from False show ?thesis by (simp add: normalize_text_def 1 2 3 4)
qed

lemma normalize_text_twice: "normalize_text (normalize_text x) = normalize_text x"
proof (cases "x = []")
  case True
  then show ?thesis by (simp add: normalize_text_def)
next
  case False
  let ?cleaned = "sub_special (lower (map char_of (filter (\<lambda>c. \<not> category_Mn c) (NFD x))))"
  have n: "normalize_text x = join '' '' (split ?cleaned)"
    using False by (simp add: normalize_text_def)
  have "good_word w \<and> (\<forall>c\<in>set w. clean_char c)" if "w \<in> set (split ?cleaned)" for w
  proof -
    from that have "good_word w \<and> set w \<subseteq> set [] \<union> set ?cleaned"
      unfolding split_def by (intro split_acc_words) simp_all
    then show ?thesis using cleaned_chars by auto
  qed
  then show ?thesis unfolding n by (intro normalize_fixed) blast
qed

text \<open>
  Claim C6. Text normalization is idempotent: normalizing a normalized text gives the same
  text. It is accent-insensitive: the capital E with acute accent (U+00C9) and the letter
  \<open>e\<close> have the same normal form.
\<close>

theorem normalize_text_idempotent_accent_insensitive:
  "normalize_text (normalize_text x) = normalize_text x
   \<and> normalize_text [CHR 0xC9] = normalize_text ''e''"
proof
  show "normalize_text (normalize_text x) = normalize_text x"
    by (rule normalize_text_twice)
  show "normalize_text [CHR 0xC9] = normalize_text ''e''"
    by (simp add: normalize_text_def NFD_def decompose_def canonical_decomposition_def code_def
        category_Mn_def lower_def lower_char_def sub_special_def isword_def isspace_def split_def)
qed

section \<open>Evaluation at the examples\<close>

text \<open>The definitions that evaluate \<open>_normalize_text\<close> and \<open>split\<close> at a given string.\<close>

lemmas normalize_simps = normalize_text_def NFD_def decompose_def canonical_decomposition_def code_def
  category_Mn_def lower_def lower_char_def sub_special_def isword_def isspace_def split_def
  char_of_eq_iff

lemma normalize_geografia: "normalize_text ''Geografia'' = ''geografia''"
  by (simp add: normalize_simps)

lemma normalize_a_geografia: "normalize_text ''A geografia'' = ''a geografia''"
  by (simp add: normalize_simps)

lemma classify_geo:
  "classify_text (build_keyword_map geo_taxonomy) ''geografia'' ''A'' = (Some ''Geografia'', None, None, 1)"
  by (simp add: classify_text_def build_keyword_map_def geo_taxonomy_def add_area_def add_words_def
      append_label_def normalize_geografia normalize_a_geografia strip_def split_def isspace_def code_def
      count_matches_def count_word_def Let_def)

lemma tags_geo: "tag_set ''geografia'' ''A'' (Some ''Geografia'') = []"
  by code_simp

section \<open>Classifier confidence\<close>

lemma set_increment: "fst ` set (increment m k) = insert k (fst ` set m)"
  by (induction m k rule: increment.induct) auto

lemma counted_increment: "counted m \<Longrightarrow> counted (increment m k)"
proof (induction m k rule: increment.induct)
  case (1 k)
  then show ?case by (simp add: counted_def)
next
  case (2 k' n m k)
  then show ?case using set_increment [of m k] by (auto simp: counted_def)
qed

lemma count_of_increment:
  "count_of (increment m k) l = count_of m l + (if l = k then 1 else 0)"
  by (induction m k rule: increment.induct) (auto simp: count_of_def)

lemma fold_increment:
  "counted m \<Longrightarrow> counted (fold (\<lambda>l m. increment m l) ls m)
     \<and> count_of (fold (\<lambda>l m. increment m l) ls m) l = count_of m l + count_list ls l"
  by (induction ls arbitrary: m) (auto simp: counted_increment count_of_increment)

lemma count_word_counts:
  "counted m \<Longrightarrow> counted (count_word km w m)
     \<and> count_of (count_word km w m) l = count_of m l + count_list (labels_of km w) l"
  by (cases "km w") (simp_all add: count_word_def labels_of_def fold_increment)

lemma fold_count_word:
  "counted m \<Longrightarrow> counted (fold (count_word km) ws m)
     \<and> count_of (fold (count_word km) ws m) l = count_of m l + list_match_count km ws l"
proof (induction ws arbitrary: m)
  case Nil
  then show ?case by (simp add: list_match_count_def)
next
  case (Cons w ws)
  from count_word_counts [OF Cons.prems, of km w l]
  have c: "counted (count_word km w m)"
    and n: "count_of (count_word km w m) l = count_of m l + count_list (labels_of km w) l"
    by simp_all
  from Cons.IH [OF c] n show ?case by (simp add: list_match_count_def)
qed

lemma count_matches_counts:
  "counted (count_matches km ws) \<and> count_of (count_matches km ws) l = list_match_count km ws l"
  using fold_count_word [of "[]" km ws l] by (simp add: count_matches_def counted_def count_of_def)

lemma counted_entry: "counted m \<Longrightarrow> (l, c) \<in> set m \<Longrightarrow> count_of m l = c \<and> 0 < c"
  by (auto simp: counted_def count_of_def)

lemma count_of_absent: "l \<notin> fst ` set m \<Longrightarrow> count_of m l = 0"
  by (simp add: count_of_def map_of_eq_None_iff [THEN iffD2])

lemma max_item_greatest:
  "max_item b xs \<in> set (b # xs) \<and> (\<forall>x\<in>set (b # xs). snd x \<le> snd (max_item b xs))"
proof (induction b xs rule: max_item.induct)
  case (1 best)
  then show ?case by simp
next
  case (2 best x xs)
  then show ?case by (cases "snd best < snd x") (auto simp: not_less intro: order_trans less_imp_le)
qed

lemma append_label_nonempty: "nonempty_lists km \<Longrightarrow> nonempty_lists (append_label l w km)"
  by (auto simp: nonempty_lists_def append_label_def)

lemma add_words_nonempty: "nonempty_lists km \<Longrightarrow> nonempty_lists (add_words l name km)"
proof -
  have "nonempty_lists km \<Longrightarrow> nonempty_lists (fold (append_label l) ws km)" for ws
    by (induction ws arbitrary: km) (auto simp: append_label_nonempty)
  then show "nonempty_lists km \<Longrightarrow> nonempty_lists (add_words l name km)"
    by (simp add: add_words_def)
qed

lemma add_topic_nonempty: "nonempty_lists km \<Longrightarrow> nonempty_lists (add_topic a s t km)"
  by (cases t) (simp_all add: add_topic_def add_words_nonempty)

lemma fold_add_topic_nonempty:
  "nonempty_lists km \<Longrightarrow> nonempty_lists (fold (add_topic a s) ts km)"
  by (induction ts arbitrary: km) (auto simp: add_topic_nonempty)

lemma add_subarea_nonempty: "nonempty_lists km \<Longrightarrow> nonempty_lists (add_subarea a e km)"
  by (cases "snd e") (simp_all add: add_subarea_def Let_def add_words_nonempty fold_add_topic_nonempty)

lemma fold_add_subarea_nonempty:
  "nonempty_lists km \<Longrightarrow> nonempty_lists (fold (add_subarea a) es km)"
  by (induction es arbitrary: km) (auto simp: add_subarea_nonempty)

lemma add_area_nonempty: "nonempty_lists km \<Longrightarrow> nonempty_lists (add_area e km)"
  by (cases "snd e") (simp_all add: add_area_def Let_def add_words_nonempty fold_add_subarea_nonempty)

lemma build_keyword_map_nonempty: "nonempty_lists (build_keyword_map tax)"
proof -
  have "nonempty_lists km \<Longrightarrow> nonempty_lists (fold add_area es km)" for es km
    by (induction es arbitrary: km) (auto simp: add_area_nonempty)
  moreover have "nonempty_lists Map.empty" by (simp add: nonempty_lists_def)
  ultimately show ?thesis unfolding build_keyword_map_def by blast
qed


lemma count_matches_empty_iff:
  "(count_matches km ws = []) = (\<forall>l. list_match_count km ws l = 0)"
proof
  assume "count_matches km ws = []"
  then show "\<forall>l. list_match_count km ws l = 0"
    using count_matches_counts [of km ws] by (simp add: count_of_def)
next
  assume z: "\<forall>l. list_match_count km ws l = 0"
  show "count_matches km ws = []"
  proof (cases "count_matches km ws")
    case Nil
    then show ?thesis .
  next
    case (Cons x xs)
    obtain l c where x: "x = (l, c)" by (cases x)
    with Cons have "(l, c) \<in> set (count_matches km ws)" by simp
    with counted_entry [of "count_matches km ws" l c] count_matches_counts [of km ws l]
    have "0 < list_match_count km ws l" by simp
    moreover from z have "list_match_count km ws l = 0" by blast
    ultimately show ?thesis by simp
  qed
qed

lemma list_match_count_zero_iff:
  "(\<forall>l. list_match_count km ws l = 0) = (\<forall>w\<in>set ws. labels_of km w = [])"
proof
  assume z: "\<forall>l. list_match_count km ws l = 0"
  show "\<forall>w\<in>set ws. labels_of km w = []"
  proof
    fix w assume w: "w \<in> set ws"
    show "labels_of km w = []"
    proof (cases "labels_of km w")
      case Nil
      then show ?thesis .
    next
      case (Cons l ls)
      then have "0 < count_list (labels_of km w) l" by simp
      with w have "0 < list_match_count km ws l"
        unfolding list_match_count_def by (induction ws) auto
      moreover from z have "list_match_count km ws l = 0" by blast
      ultimately show ?thesis by simp
    qed
  qed
next
  assume "\<forall>w\<in>set ws. labels_of km w = []"
  then show "\<forall>l. list_match_count km ws l = 0"
    unfolding list_match_count_def by (induction ws) auto
qed

lemma unmatched_iff:
  assumes "nonempty_lists km"
  shows "(count_matches km ws = []) = list_all (\<lambda>w. km w = None) ws"
proof -
  have "(labels_of km w = []) = (km w = None)" for w
    using assms by (cases "km w") (auto simp: labels_of_def nonempty_lists_def)
  then show ?thesis
    by (simp add: count_matches_empty_iff list_match_count_zero_iff list_all_iff del: split_paired_All)
qed

lemma best_match:
  assumes "count_matches km ws = m # ms" and "max_item m ms = (l, score)"
  shows "score = list_match_count km ws l \<and> 0 < score \<and> (\<forall>l'. list_match_count km ws l' \<le> score)"
proof -
  let ?M = "count_matches km ws"
  have c: "counted ?M" using count_matches_counts [of km ws] by simp
  from max_item_greatest [of m ms] assms
  have mem: "(l, score) \<in> set ?M" and mx: "\<forall>x\<in>set ?M. snd x \<le> score" by auto
  from counted_entry [OF c mem] count_matches_counts [of km ws l]
  have 1: "score = list_match_count km ws l" "0 < score" by simp_all
  have "list_match_count km ws l' \<le> score" for l'
  proof (cases "l' \<in> fst ` set ?M")
    case True
    then obtain c' where e: "(l', c') \<in> set ?M" by auto
    from counted_entry [OF c e] count_matches_counts [of km ws l']
    have "list_match_count km ws l' = c'" by simp
    with mx e show ?thesis by auto
  next
    case False
    then have "count_of ?M l' = 0" by (rule count_of_absent)
    with count_matches_counts [of km ws l'] show ?thesis by simp
  qed
  with 1 show ?thesis by simp
qed

text \<open>
  Claim C3, with the match count as \<open>classify_text\<close> keeps it. For every text and title,
  with the keyword index built from a taxonomy, \<open>classify_text\<close> returns the confidence
  \<open>min (best / max (0.1 * n) 1) 1\<close>, where \<open>n\<close> is the number of normalized words and
  \<open>best\<close> the greatest \<open>list_match_count\<close> of a label triple (the triple returned, when a
  word matches): an occurrence of a word counts once for every entry of the triple in the
  list of the word, so twice for a label that holds the word twice. The confidence lies
  between 0 and 1, and the result is \<open>(None, None, None, 0.0)\<close> exactly when the
  normalized text is empty or no word of it is in the keyword index.
\<close>

theorem classify_text_confidence:
  "let km = build_keyword_map tax;
       normalized = normalize_text (strip (ttl @ '' '' @ text));
       ws = split normalized;
       unmatched = (normalized = [] \<or> list_all (\<lambda>w. km w = None) ws)
   in case classify_text km text ttl of
        (a, s, t, c) \<Rightarrow>
          (\<exists>l. (\<forall>l'. list_match_count km ws l' \<le> list_match_count km ws l)
              \<and> c = min (real (list_match_count km ws l) / max (0.1 * real (length ws)) 1) 1
              \<and> (unmatched \<or> (a, s, t) = (Some (fst l), fst (snd l), snd (snd l))))
          \<and> 0 \<le> c \<and> c \<le> 1
          \<and> (((a, s, t, c) = (None, None, None, 0)) = unmatched)"
proof -
  define km where "km = build_keyword_map tax"
  define normalized where "normalized = normalize_text (strip (ttl @ '' '' @ text))"
  define ws where "ws = split normalized"
  define unmatched where "unmatched = (normalized = [] \<or> list_all (\<lambda>w. km w = None) ws)"
  have ne: "nonempty_lists km" unfolding km_def by (rule build_keyword_map_nonempty)
  have empty_ws: "ws = []" if "normalized = []"
    using that by (simp add: ws_def split_def)
  have un: "unmatched = (normalized = [] \<or> count_matches km ws = [])"
    unfolding unmatched_def using unmatched_iff [OF ne] by simp
  have goal: "case classify_text km text ttl of
        (a, s, t, c) \<Rightarrow>
          (\<exists>l. (\<forall>l'. list_match_count km ws l' \<le> list_match_count km ws l)
              \<and> c = min (real (list_match_count km ws l) / max (0.1 * real (length ws)) 1) 1
              \<and> (unmatched \<or> (a, s, t) = (Some (fst l), fst (snd l), snd (snd l))))
          \<and> 0 \<le> c \<and> c \<le> 1
          \<and> (((a, s, t, c) = (None, None, None, 0)) = unmatched)"
  proof (cases unmatched)
    case True
    then have r: "classify_text km text ttl = (None, None, None, 0)"
      unfolding un classify_text_def Let_def normalized_def [symmetric] ws_def [symmetric]
      by auto
    from True un empty_ws have "count_matches km ws = []"
      by (auto simp: count_matches_def)
    then have z: "\<forall>l. list_match_count km ws l = 0"
      using count_matches_empty_iff [of km ws] by blast
    show ?thesis unfolding r using True z
      by (simp del: split_paired_All split_paired_Ex)
  next
    case False
    then have n: "normalized \<noteq> []" and m: "count_matches km ws \<noteq> []" unfolding un by simp_all
    then obtain x xs where xs: "count_matches km ws = x # xs" by (cases "count_matches km ws") auto
    obtain l score where b: "max_item x xs = (l, score)" by (cases "max_item x xs")
    obtain a s t where l: "l = (a, s, t)" by (cases l)
    from best_match [OF xs b]
    have sc: "score = list_match_count km ws l" "0 < score" "\<forall>l'. list_match_count km ws l' \<le> score"
      by blast+
    have r: "classify_text km text ttl
               = (Some a, s, t, min (real score / max (real (length ws) * 0.1) 1) 1)"
      unfolding classify_text_def Let_def normalized_def [symmetric] ws_def [symmetric]
      using n xs b l by simp
    have pos: "0 < real score / max (real (length ws) * 0.1) 1"
      using sc(2) by simp
    show ?thesis
      unfolding r using False sc pos l
      by (auto simp: mult.commute intro!: exI [of _ a] exI [of _ s] exI [of _ t])
  qed
  then show ?thesis
    unfolding Let_def km_def normalized_def ws_def unmatched_def .
qed

lemma direito_area_words:
  "split (normalize_text ''Direito interno e direito internacional'')
     = [''direito'', ''interno'', ''e'', ''direito'', ''internacional'']"
  by (simp add: normalize_simps)

lemma direito_words:
  "split (normalize_text (strip ('''' @ '' '' @ direito_text)))
     = [''direito'', ''a'', ''b'', ''c'', ''d'', ''e'', ''f'', ''g'', ''h'', ''i'', ''j'']"
  by (simp add: direito_text_def strip_def normalize_simps)

lemma direito_normalized: "normalize_text (strip ('''' @ '' '' @ direito_text)) \<noteq> []"
  by (simp add: direito_text_def strip_def normalize_simps)

lemma direito_index:
  "build_keyword_map direito_taxonomy w =
     (if w = ''direito''
      then Some [(''Direito interno e direito internacional'', None, None),
                 (''Direito interno e direito internacional'', None, None)]
      else if w = ''interno'' \<or> w = ''internacional''
      then Some [(''Direito interno e direito internacional'', None, None)]
      else None)"
  by (simp add: build_keyword_map_def direito_taxonomy_def add_area_def add_words_def
      append_label_def direito_area_words Let_def)

lemma direito_matches:
  "count_matches (build_keyword_map direito_taxonomy)
             [''direito'', ''a'', ''b'', ''c'', ''d'', ''e'', ''f'', ''g'', ''h'', ''i'', ''j'']
           = [((''Direito interno e direito internacional'', None, None), 2)]"
  by (simp add: count_matches_def count_word_def direito_index)

lemma direito_set_best_score:
  "set_best_score (build_keyword_map direito_taxonomy)
     [''direito'', ''a'', ''b'', ''c'', ''d'', ''e'', ''f'', ''g'', ''h'', ''i'', ''j''] = 1"
  by (simp add: set_best_score_def set_match_count_def labels_of_def direito_index)

lemma direito_classified:
  "classify_text (build_keyword_map direito_taxonomy) direito_text ''''
     = (Some ''Direito interno e direito internacional'', None, None, 1)"
  using direito_normalized
  by (simp only: classify_text_def Let_def direito_words direito_matches) simp

text \<open>
  Claim C3 as stated, where the index maps a word to a set of label triples, so that an
  occurrence of a word counts once for a triple. At the taxonomy of the one area
  \<open>Direito interno e direito internacional\<close> and a text of eleven words that holds
  \<open>direito\<close> once, the highest such count is 1 and the formula gives 1 / 1.1;
  \<open>classify_text\<close> counts the area twice and returns the confidence 1.
\<close>

theorem classify_text_set_count_counterexample:
  "length (split (normalize_text (strip ('''' @ '' '' @ direito_text)))) = 11
   \<and> set_best_score (build_keyword_map direito_taxonomy)
         (split (normalize_text (strip ('''' @ '' '' @ direito_text)))) = 1
   \<and> snd (snd (snd (classify_text (build_keyword_map direito_taxonomy) direito_text ''''))) = 1
   \<and> snd (snd (snd (classify_text (build_keyword_map direito_taxonomy) direito_text '''')))
       \<noteq> min (real (set_best_score (build_keyword_map direito_taxonomy)
                       (split (normalize_text (strip ('''' @ '' '' @ direito_text)))))
              / max (0.1 * real (length (split (normalize_text (strip ('''' @ '' '' @ direito_text)))))) 1) 1"
  by (simp only: direito_words direito_classified direito_set_best_score) simp

section \<open>Relevance scorer\<close>

text \<open>
  Claim C4. For every note, area and confidence the scorer returns 1 when the area is
  absent (\<open>None\<close> or the empty string, the values of which \<open>not area\<close> holds) or the
  confidence is below the configured threshold. Otherwise it returns 3, plus 1 for an area
  of the high-priority list, plus 1 for a confidence above 0.7 or minus 1 for one below
  0.4, plus 1 for a content longer than 1000 characters or minus 1 for one shorter than
  200, clamped once at the end; the result always lies between 1 and 5.
\<close>

theorem relevancia_formula_and_range:
  "calculate_relevancia_cacd cfg n a c =
     (if a = None \<or> a = Some [] \<or> c < relevancia_threshold cfg then 1
      else max 1 (min 5 (3 + (if list_ex (\<lambda>x. a = Some x) high_priority_areas then 1 else 0)
                           + (if c > 0.7 then 1 else if c < 0.4 then - 1 else 0)
                           + (if length (content n) > 1000 then 1
                              else if length (content n) < 200 then - 1 else 0))))
   \<and> 1 \<le> calculate_relevancia_cacd cfg n a c \<and> calculate_relevancia_cacd cfg n a c \<le> 5"
  by (simp add: calculate_relevancia_cacd_def Let_def)

section \<open>Complete metadata\<close>

lemma analyze_note_id: "note_id (analyze_note rank cfg km notes n) = note_key n"
  by (simp add: analyze_note_def split: prod.splits)

lemma suggestions_to_review_source:
  "s \<in> set (suggestions_to_review rank cfg km notes) \<Longrightarrow>
     \<exists>m\<in>set notes. \<not> has_complete_metadata m \<and> note_id s = note_key m"
  by (auto simp: suggestions_to_review_def Let_def analyze_note_id split: if_splits)

lemma write_sections_all:
  "\<forall>s\<in>set ss. \<exists>m\<in>set ns. note_key m = note_id s \<Longrightarrow>
     write_sections fmt ns ss out = (out @ concat (map (section_of fmt ns) ss), True)"
proof (induction ss arbitrary: out)
  case Nil
  then show ?case by simp
next
  case (Cons s ss)
  then obtain m where "m \<in> set ns" "note_key m = note_id s" by auto
  then have "find (\<lambda>n. note_key n = note_id s) ns \<noteq> None"
    by (auto simp: find_None_iff)
  then obtain n where n: "find (\<lambda>n. note_key n = note_id s) ns = Some n" by auto
  with Cons show ?case by (simp add: section_of_def)
qed

lemma generate_feedback_file_sections:
  "generate_feedback_file rank now fmt vault_path cfg km ns fs =
     (if suggestions_to_review rank cfg km ns = [] then (fs, False)
      else (fs(path_join vault_path (feedback_file cfg) \<mapsto>
                 header_text now @ concat (map (section_of fmt ns) (suggestions_to_review rank cfg km ns))),
            True))"
proof -
  have "\<forall>s\<in>set (suggestions_to_review rank cfg km ns). \<exists>m\<in>set ns. note_key m = note_id s"
    using suggestions_to_review_source by metis
  from write_sections_all [OF this]
  show ?thesis by (simp add: generate_feedback_file_def Let_def)
qed

text \<open>
  Claim C5, with the test that \<open>_has_complete_metadata\<close> makes: a note whose header has
  an \<open>area\<close> and a \<open>relevancia_cacd\<close> that are both true values (not null, not false, not
  zero, not empty) is analyzed to the suggestion of confidence 1.0 with no label, no tag,
  no relevance and no connection; such a note of the store, whose keys are distinct, is
  the note of no suggestion under review; and the review file, written when there is a
  suggestion under review, is the heading followed by the sections of these suggestions,
  one for each, in their order.
\<close>

theorem complete_metadata_skipped:
  assumes "frontmatter n ''area'' = Some va" and "truthy va"
    and "frontmatter n ''relevancia_cacd'' = Some vr" and "truthy vr"
  shows "analyze_note rank cfg km ns n =
           \<lparr>note_id = note_key n, area = None, subarea = None, topico = None, tags = [],
            relevancia_cacd = None, conexoes = [], confidence = 1\<rparr>
         \<and> (n \<in> set ns \<and> distinct (map note_key ns)
              \<longrightarrow> note_key n \<notin> set (map note_id (suggestions_to_review rank cfg km ns)))
         \<and> generate_feedback_file rank now fmt vault_path cfg km ns fs =
              (if suggestions_to_review rank cfg km ns = [] then (fs, False)
               else (fs(path_join vault_path (feedback_file cfg) \<mapsto>
                          header_text now
                          @ concat (map (section_of fmt ns) (suggestions_to_review rank cfg km ns))),
                     True))"
proof -
  from assms have c: "has_complete_metadata n" by (simp add: has_complete_metadata_def)
  then have 1: "analyze_note rank cfg km ns n =
           \<lparr>note_id = note_key n, area = None, subarea = None, topico = None, tags = [],
            relevancia_cacd = None, conexoes = [], confidence = 1\<rparr>"
    by (simp add: analyze_note_def)
  have 2: "note_key n \<notin> set (map note_id (suggestions_to_review rank cfg km ns))"
    if n: "n \<in> set ns" and d: "distinct (map note_key ns)"
  proof
    assume "note_key n \<in> set (map note_id (suggestions_to_review rank cfg km ns))"
    then obtain s where "s \<in> set (suggestions_to_review rank cfg km ns)" "note_id s = note_key n"
      by auto
    with suggestions_to_review_source obtain m where m: "m \<in> set ns" "\<not> has_complete_metadata m"
      "note_key m = note_key n" by metis
    from d n m(1,3) have "m = n" by (meson distinct_map inj_onD)
    with m(2) c show False by simp
  qed
  from 1 2 generate_feedback_file_sections [of rank now fmt vault_path cfg km ns fs]
  show ?thesis by blast
qed

text \<open>
  At the store of a note with complete metadata and a note without header, both with the
  text of the area Geografia: the first is skipped and the second is under review.
\<close>

lemma analyze_geo_after_done:
  "analyze_note rank default_config (build_keyword_map geo_taxonomy) [done_note, geo_note] geo_note =
     \<lparr>note_id = ''g.md'', area = Some ''Geografia'', subarea = None, topico = None, tags = [],
      relevancia_cacd = Some 4, conexoes = [''A''], confidence = 1\<rparr>"
  by (simp add: analyze_note_def has_complete_metadata_def geo_note_def done_note_def classify_geo tags_geo
      generate_tags_def set_list_def calculate_relevancia_cacd_def suggest_connections_def
      high_priority_areas_def default_config_def fm_get_def label_value_def)

theorem complete_metadata_skipped_witness:
  "truthy (YStr ''Geografia'') \<and> truthy (YInt 5)
   \<and> done_note \<in> set [done_note, geo_note] \<and> distinct (map note_key [done_note, geo_note])
   \<and> analyze_note (\<lambda>s. 0) default_config (build_keyword_map geo_taxonomy) [done_note, geo_note] done_note =
           \<lparr>note_id = ''c.md'', area = None, subarea = None, topico = None, tags = [],
            relevancia_cacd = None, conexoes = [], confidence = 1\<rparr>
   \<and> map note_id (suggestions_to_review (\<lambda>s. 0) default_config (build_keyword_map geo_taxonomy)
                     [done_note, geo_note]) = [''g.md'']
   \<and> ''c.md'' \<notin> set (map note_id (suggestions_to_review (\<lambda>s. 0) default_config
                     (build_keyword_map geo_taxonomy) [done_note, geo_note]))"
proof -
  have h: "frontmatter done_note ''area'' = Some (YStr ''Geografia'')" "truthy (YStr ''Geografia'')"
    "frontmatter done_note ''relevancia_cacd'' = Some (YInt 5)" "truthy (YInt 5)"
    by (simp_all add: done_note_def)
  have s: "map note_id (suggestions_to_review (\<lambda>s. 0) default_config (build_keyword_map geo_taxonomy)
                     [done_note, geo_note]) = [''g.md'']"
    by (simp add: suggestions_to_review_def analyze_geo_after_done)
       (simp add: has_complete_metadata_def geo_note_def done_note_def)
  from complete_metadata_skipped [OF h, of "\<lambda>s. 0" default_config "build_keyword_map geo_taxonomy"
      "[done_note, geo_note]"]
  show ?thesis by (simp add: s) (simp add: done_note_def geo_note_def)
qed

lemma analyze_zero:
  "analyze_note rank default_config (build_keyword_map geo_taxonomy) [zero_note] zero_note =
     \<lparr>note_id = ''z.md'', area = Some ''Geografia'', subarea = None, topico = None, tags = [],
      relevancia_cacd = Some 4, conexoes = [], confidence = 1\<rparr>"
  by (simp add: analyze_note_def has_complete_metadata_def zero_note_def classify_geo tags_geo
      generate_tags_def set_list_def calculate_relevancia_cacd_def suggest_connections_def
      high_priority_areas_def default_config_def)

text \<open>
  Claim C5 as stated, where a field is non-empty when it has a value. At a note whose
  header has the area Geografia and the relevance 0, both fields are non-empty, and the
  note is classified and is under review: zero is not a true value.
\<close>

theorem zero_relevance_counterexample:
  "frontmatter zero_note ''area'' = Some (YStr ''Geografia'') \<and> non_empty (YStr ''Geografia'')
   \<and> frontmatter zero_note ''relevancia_cacd'' = Some (YInt 0) \<and> non_empty (YInt 0)
   \<and> area (analyze_note (\<lambda>s. 0) default_config (build_keyword_map geo_taxonomy) [zero_note] zero_note)
       = Some ''Geografia''
   \<and> map note_id (suggestions_to_review (\<lambda>s. 0) default_config (build_keyword_map geo_taxonomy)
                     [zero_note]) = [''z.md'']"
  by (simp add: suggestions_to_review_def analyze_zero)
     (simp add: has_complete_metadata_def zero_note_def)

section \<open>Connection finder\<close>


text \<open>
  Claim C8, at a configuration with \<open>conexoes_max = 0\<close> and two other notes of the area
  looked for: the connection finder returns one title, more than the configured maximum.
\<close>

theorem connections_exceed_zero_maximum:
  "conexoes_max (default_config\<lparr>conexoes_max := 0\<rparr>) = 0
   \<and> suggest_connections (default_config\<lparr>conexoes_max := 0\<rparr>) [geo_a, geo_b, geo_c] geo_a
        (Some ''Geografia'') None = [''B'']"
  by (simp add: suggest_connections_def default_config_def geo_a_def geo_b_def geo_c_def
      fm_get_def label_value_def)




section \<open>Tag limit\<close>

lemma generate_tags_at_most_five: "length (generate_tags rank text ttl a) \<le> 5"
  by (simp add: generate_tags_def)

lemma classify_text_empty_map: "classify_text Map.empty text ttl = (None, None, None, 0)"
proof -
  have "fold (count_word Map.empty) ws m = m" for ws m
    by (induction ws) (simp_all add: count_word_def)
  then show ?thesis by (simp add: classify_text_def count_matches_def Let_def)
qed

lemma tags_guerra:
  "tag_set ''guerra paz onu'' ''T'' None =
     [''multilateralismo'', ''conflitos'', ''paz-seguran'' @ [CHR 0xE7] @ ''a'',
      ''seguran'' @ [CHR 0xE7] @ ''a-internacional'']"
  by code_simp

text \<open>
  Claim C7, at a configuration with \<open>max_tags = 2\<close> and a note whose text holds three
  keywords: the suggestion carries four tags, more than the configured maximum.
  \<open>generate_tags\<close> never reads the configuration; it cuts the list at five, in whatever
  order the set is enumerated.
\<close>

theorem tags_exceed_configured_maximum:
  "max_tags (default_config\<lparr>max_tags := 2\<rparr>) = 2
   \<and> length (tags (analyze_note rank (default_config\<lparr>max_tags := 2\<rparr>) Map.empty [tag_note] tag_note)) = 4"
  by (simp add: analyze_note_def classify_text_empty_map has_complete_metadata_def tag_note_def
      generate_tags_def set_list_def tags_guerra)

section \<open>Applying approved changes\<close>

text \<open>
  With backups enabled and no backup yet, the note is renamed to its backup name and then
  opened under its old name, which no longer exists: the call fails and writes nothing.
  A call that renames nothing and fails leaves the files and the note as they were, an
  existing backup is kept, and the loop goes on after a failed note.
\<close>

lemma first_backup_fails:
  assumes "backup_original cfg" and "fs (with_suffix (file_path n) ''.bak'') = None"
    and "with_suffix (with_suffix (file_path n) ''.bak'') ''.md'' = file_path n"
    and "with_suffix (file_path n) ''.bak'' \<noteq> file_path n"
  shows "apply_metadata_changes load dump cfg fs n changes =
           (if fs (file_path n) = None then fs
            else (fs(file_path n := None))(with_suffix (file_path n) ''.bak'' := fs (file_path n)),
            n, False)"
  using assms by (simp add: apply_metadata_changes_def Let_def)

lemma failure_without_rename:
  assumes "\<not> (backup_original cfg \<and> fs (with_suffix (file_path n) ''.bak'') = None)"
    and "apply_metadata_changes load dump cfg fs n changes = (fs', n', False)"
  shows "fs' = fs \<and> n' = n"
  using assms
  by (auto simp: apply_metadata_changes_def Let_def split: option.splits prod.splits if_splits)

lemma existing_backup_kept:
  assumes "fs (with_suffix (file_path n) ''.bak'') = Some b"
    and "with_suffix (file_path n) ''.bak'' \<noteq> file_path n"
  shows "fst (apply_metadata_changes load dump cfg fs n changes) (with_suffix (file_path n) ''.bak'')
           = Some b"
  using assms
  by (auto simp: apply_metadata_changes_def Let_def split: option.splits prod.splits)

lemma failed_note_skipped:
  assumes "find (\<lambda>n. title n = fst entry) ns = Some n"
    and "apply_metadata_changes load dump cfg fs n (snd entry) = (fs', n', False)"
  shows "apply_all load dump cfg (entry # rest) fs ns k
           = apply_all load dump cfg rest fs' (update_first (fst entry) n' ns) k"
  using assms by simp

text \<open>
  Claim C2, at a note without backup and the default configuration (backups enabled):
  the content is preserved under the backup name, but the file at the original path is
  not rewritten: it no longer exists, and the call reports failure.
\<close>

theorem backup_moves_note_away:
  "(case apply_metadata_changes load dump default_config [''vault/guerra.md'' \<mapsto> ''Paraguai'']
           para_note [''area'' \<mapsto> YStr ''Geografia''] of
      (fs', n', ok) \<Rightarrow>
        fs' ''vault/guerra.md'' = None \<and> fs' ''vault/guerra.bak'' = Some ''Paraguai''
        \<and> frontmatter n' ''area'' = None \<and> ok = False)"
  by code_simp

text \<open>
  Claim C9, at a vault where note A has no backup yet and note B has one, and a review
  file that approves an area for both: applying to A fails, and its file is not left
  unchanged, it is gone from its path (the content is under the backup name); the changes
  of B are applied and the operation reports success.
\<close>

theorem failed_note_loses_its_file:
  "(case process_feedback_file load dump ''vault'' default_config vault_files [note_a, note_b] of
      (fs', notes', ok) \<Rightarrow>
        ok \<and> vault_files ''vault/a.md'' = Some ''x'' \<and> fs' ''vault/a.md'' = None
        \<and> fs' ''vault/a.bak'' = Some ''x''
        \<and> map (\<lambda>n. frontmatter n ''area'') notes' = [None, Some (YStr ''Geografia'')]
        \<and> fs' ''vault/b.md'' =
             Some (''---'' @ [CHR 0x0A] @ dump [''area'' \<mapsto> YStr ''Geografia''] @ ''---'' @ [CHR 0x0A] @ ''y''))"
  by code_simp (auto intro!: arg_cong [where f = dump])

section \<open>Round trip of the review file\<close>

lemma analyze_geo:
  "analyze_note rank no_backup (build_keyword_map geo_taxonomy) [geo_note] geo_note =
     \<lparr>note_id = ''g.md'', area = Some ''Geografia'', subarea = None, topico = None, tags = [],
      relevancia_cacd = Some 4, conexoes = [], confidence = 1\<rparr>"
  by (simp add: analyze_note_def has_complete_metadata_def geo_note_def classify_geo tags_geo
      generate_tags_def set_list_def calculate_relevancia_cacd_def suggest_connections_def high_priority_areas_def no_backup_def
      default_config_def)

lemma generate_geo:
  "generate_feedback_file rank ''2026-11-03 12:00'' (\<lambda>r. ''1.00'') ''vault'' no_backup
       (build_keyword_map geo_taxonomy) [geo_note] fs
     = (fs(''vault/cacd_feedback.md'' \<mapsto> geo_review), True)"
proof -
  have s: "suggestions_to_review rank no_backup (build_keyword_map geo_taxonomy) [geo_note]
             = [\<lparr>note_id = ''g.md'', area = Some ''Geografia'', subarea = None, topico = None, tags = [],
                 relevancia_cacd = Some 4, conexoes = [], confidence = 1\<rparr>]"
    by (simp add: suggestions_to_review_def analyze_geo) (simp add: has_complete_metadata_def geo_note_def)
  have n: "str_int 4 = ''4''"
    by code_simp
  show ?thesis
    unfolding generate_feedback_file_def s Let_def
    by (simp add: path_join_def no_backup_def default_config_def header_text_def section_text_def
        label_lines_def list_lines_def field_lines_def geo_note_def geo_review_def n)
qed

lemma process_geo:
  "(case process_feedback_file load dump ''vault'' no_backup
           [''vault/g.md'' \<mapsto> ''geografia'', ''vault/cacd_feedback.md'' \<mapsto> approve_all geo_review]
           [geo_note] of
      (fs', notes', ok) \<Rightarrow>
        ok \<and> map (\<lambda>n. frontmatter n ''area'') notes' = [Some (YStr ''Geografia'')]
        \<and> map (\<lambda>n. frontmatter n ''relevancia_cacd'') notes' = [None])"
  by code_simp

text \<open>
  Claim C1, at a vault of one note (backups disabled) whose suggestion has the area
  Geografia and the relevance 4, both emitted in its section: after every box is checked
  and the file processed, the header of the note holds the area and no relevance. Every
  checked line is the same text, and the line before it is looked up through the first
  occurrence of that text, so each approval reads the first field line of the file.
\<close>

theorem approved_review_drops_fields:
  "relevancia_cacd (analyze_note rank no_backup (build_keyword_map geo_taxonomy) [geo_note] geo_note) = Some 4
   \<and> (case review_round_trip rank ''2026-11-03 12:00'' (\<lambda>r. ''1.00'') load dump ''vault'' no_backup
              (build_keyword_map geo_taxonomy) [geo_note] [''vault/g.md'' \<mapsto> ''geografia''] of
         (fs', notes', ok) \<Rightarrow>
           ok \<and> map (\<lambda>n. frontmatter n ''area'') notes' = [Some (YStr ''Geografia'')]
           \<and> map (\<lambda>n. frontmatter n ''relevancia_cacd'') notes' = [None])"
proof -
  have p: "path_join ''vault'' (feedback_file no_backup) = ''vault/cacd_feedback.md''"
    by (simp add: path_join_def no_backup_def default_config_def)
  have "review_round_trip rank ''2026-11-03 12:00'' (\<lambda>r. ''1.00'') load dump ''vault'' no_backup
              (build_keyword_map geo_taxonomy) [geo_note] [''vault/g.md'' \<mapsto> ''geografia'']
          = process_feedback_file load dump ''vault'' no_backup
              [''vault/g.md'' \<mapsto> ''geografia'', ''vault/cacd_feedback.md'' \<mapsto> approve_all geo_review]
              [geo_note]"
    unfolding review_round_trip_def generate_geo p by simp
  with process_geo [of load dump] show ?thesis by (simp add: analyze_geo)
qed

end
